theory Spec2Isabelle
  imports Complex_Main "HOL-Library.Sublist"
begin

section \<open>Posture Guard: the posture analyser\<close>

text \<open>
  A shallow embedding of \<^verbatim>\<open>PostureAnalyzer\<close> in
  \<^verbatim>\<open>src/backend/src/python/posture_analyzer.py\<close>: the angle computation
  \<^verbatim>\<open>calculate_angle\<close>, the facing classifier \<^verbatim>\<open>detect_facing_direction\<close> and
  the two evaluators \<^verbatim>\<open>analyze_squat_posture\<close> and \<^verbatim>\<open>analyze_sitting_posture\<close>.

  Numbers. A landmark coordinate is a finite floating-point number, modelled by a real.
  A computed value is an \<open>npfloat\<close>: a real or one of the IEEE special values, which
  numpy returns where Python would raise (a division by zero gives \<^verbatim>\<open>nan\<close> or an
  infinity, and a warning is printed). The arithmetic of the sitting evaluator's neck
  measure and of \<open>calculate_angle_f64\<close> is rounded to binary64 operation by operation.
  \<open>calculate_angle\<close> is the same angle computation on the exact values of the
  operations; the evaluators' rules are stated with it, where the angle enters only as
  the value that is compared with the bounds.
\<close>

subsection \<open>numpy scalars\<close>

datatype npfloat = Fin real | PInf | NInf | NaN

text \<open>\<^verbatim>\<open>x / y\<close> on numpy scalars whose operands are finite: \<^verbatim>\<open>0/0\<close> is
  \<^verbatim>\<open>nan\<close>, any other division by zero is an infinity with the sign of the numerator.\<close>

definition np_divide :: "real \<Rightarrow> real \<Rightarrow> npfloat" where
  "np_divide p q =
     (if q \<noteq> 0 then Fin (p / q)
      else if p = 0 then NaN
      else if 0 < p then PInf else NInf)"

text \<open>\<^verbatim>\<open>np.clip(v, lo, hi)\<close>: \<^verbatim>\<open>nan\<close> stays \<^verbatim>\<open>nan\<close>, an infinity is
  clipped to the bound on its side.\<close>

fun np_clip :: "npfloat \<Rightarrow> real \<Rightarrow> real \<Rightarrow> npfloat" where
  "np_clip (Fin v) lo hi = Fin (min (max v lo) hi)"
| "np_clip PInf lo hi = Fin hi"
| "np_clip NInf lo hi = Fin lo"
| "np_clip NaN lo hi = NaN"

text \<open>\<^verbatim>\<open>np.arccos\<close>: \<^verbatim>\<open>nan\<close> outside \<open>[-1, 1]\<close>.\<close>

fun np_arccos :: "npfloat \<Rightarrow> npfloat" where
  "np_arccos (Fin v) = (if - 1 \<le> v \<and> v \<le> 1 then Fin (arccos v) else NaN)"
| "np_arccos PInf = NaN"
| "np_arccos NInf = NaN"
| "np_arccos NaN = NaN"

text \<open>\<^verbatim>\<open>np.degrees\<close>: radians to degrees.\<close>

fun np_degrees :: "npfloat \<Rightarrow> npfloat" where
  "np_degrees (Fin v) = Fin (v * 180 / pi)"
| "np_degrees PInf = PInf"
| "np_degrees NInf = NInf"
| "np_degrees NaN = NaN"

text \<open>The comparison \<^verbatim>\<open><=\<close>: false as soon as one side is \<^verbatim>\<open>nan\<close>.\<close>

fun np_le :: "npfloat \<Rightarrow> npfloat \<Rightarrow> bool" where
  "np_le NaN w = False"
| "np_le v NaN = False"
| "np_le NInf w = True"
| "np_le v PInf = True"
| "np_le (Fin v) (Fin w) = (v \<le> w)"
| "np_le PInf w = False"
| "np_le v NInf = False"

text \<open>The comparison \<^verbatim>\<open><\<close>, false as well when one side is \<^verbatim>\<open>nan\<close>.\<close>

fun np_lt :: "npfloat \<Rightarrow> npfloat \<Rightarrow> bool" where
  "np_lt NaN w = False"
| "np_lt v NaN = False"
| "np_lt (Fin v) (Fin w) = (v < w)"
| "np_lt PInf w = False"
| "np_lt v NInf = False"
| "np_lt NInf w = True"
| "np_lt v PInf = True"

text \<open>Rounding to the nearest integer, ties to the even one, and \<^verbatim>\<open>round(v, 1)\<close>,
  which rounds to one decimal place that way.\<close>

definition rint :: "real \<Rightarrow> int" where
  "rint v =
     (let f = \<lfloor>v\<rfloor>; d = v - of_int f
      in if d < 1 / 2 then f
         else if 1 / 2 < d then f + 1
         else if even f then f else f + 1)"

fun round1 :: "npfloat \<Rightarrow> npfloat" where
  "round1 (Fin v) = Fin (of_int (rint (v * 10)) / 10)"
| "round1 PInf = PInf"
| "round1 NInf = NInf"
| "round1 NaN = NaN"

subsection \<open>Binary64 arithmetic\<close>

text \<open>
  A Python float and a numpy \<^verbatim>\<open>float64\<close> are IEEE 754 binary64 numbers, and each
  arithmetic operation returns the exact result rounded to the nearest binary64 number,
  ties to the even significand. \<open>f64 v\<close> is that rounding of the real \<open>v\<close>: the
  significand has 53 bits, the exponent of the unit in the last place is at least
  \<open>-1074\<close> (below \<open>2^-1022\<close> the numbers are subnormal, and a result of magnitude below
  \<open>2^-1075\<close> underflows to zero), and a magnitude of \<open>2^1024 - 2^970\<close> or more
  overflows to an infinity. The sign of zero is not modelled.
\<close>

definition pow2 :: "int \<Rightarrow> real" where
  "pow2 e = (if 0 \<le> e then 2 ^ nat e else 1 / 2 ^ nat (- e))"

definition f64_overflow :: real where
  "f64_overflow = 2 ^ 1024 - 2 ^ 970"

definition f64 :: "real \<Rightarrow> npfloat" where
  "f64 v =
     (if v = 0 then Fin 0
      else if f64_overflow \<le> v then PInf
      else if v \<le> - f64_overflow then NInf
      else let e = max \<lfloor>log 2 \<bar>v\<bar>\<rfloor> (- 1022); ulp = pow2 (e - 52)
           in Fin (of_int (rint (v / ulp)) * ulp))"

text \<open>The operations on binary64 values, with the special values of IEEE 754. Python
  raises on none of them: overflow gives an infinity, an undefined result gives
  \<^verbatim>\<open>nan\<close>. (Division is numpy's: it is only applied to numpy scalars.)\<close>

fun f64_add :: "npfloat \<Rightarrow> npfloat \<Rightarrow> npfloat" where
  "f64_add NaN w = NaN"
| "f64_add v NaN = NaN"
| "f64_add (Fin v) (Fin w) = f64 (v + w)"
| "f64_add PInf NInf = NaN"
| "f64_add NInf PInf = NaN"
| "f64_add PInf w = PInf"
| "f64_add NInf w = NInf"
| "f64_add v PInf = PInf"
| "f64_add v NInf = NInf"

fun f64_neg :: "npfloat \<Rightarrow> npfloat" where
  "f64_neg (Fin v) = Fin (- v)"
| "f64_neg PInf = NInf"
| "f64_neg NInf = PInf"
| "f64_neg NaN = NaN"

fun f64_mul :: "npfloat \<Rightarrow> npfloat \<Rightarrow> npfloat" where
  "f64_mul NaN w = NaN"
| "f64_mul v NaN = NaN"
| "f64_mul (Fin v) (Fin w) = f64 (v * w)"
| "f64_mul (Fin v) w = (if v = 0 then NaN else if 0 < v then w else f64_neg w)"
| "f64_mul v (Fin w) = (if w = 0 then NaN else if 0 < w then v else f64_neg v)"
| "f64_mul PInf w = w"
| "f64_mul NInf w = f64_neg w"

fun f64_div :: "npfloat \<Rightarrow> npfloat \<Rightarrow> npfloat" where
  "f64_div NaN w = NaN"
| "f64_div v NaN = NaN"
| "f64_div (Fin v) (Fin w) =
     (if w \<noteq> 0 then f64 (v / w)
      else if v = 0 then NaN
      else if 0 < v then PInf else NInf)"
| "f64_div (Fin v) w = Fin 0"
| "f64_div v (Fin w) = (if 0 \<le> w then v else f64_neg v)"
| "f64_div v w = NaN"

fun f64_sqrt :: "npfloat \<Rightarrow> npfloat" where
  "f64_sqrt (Fin v) = (if v < 0 then NaN else f64 (sqrt v))"
| "f64_sqrt PInf = PInf"
| "f64_sqrt NInf = NaN"
| "f64_sqrt NaN = NaN"

fun f64_abs :: "npfloat \<Rightarrow> npfloat" where
  "f64_abs (Fin v) = Fin \<bar>v\<bar>"
| "f64_abs PInf = PInf"
| "f64_abs NInf = PInf"
| "f64_abs NaN = NaN"

text \<open>\<^verbatim>\<open>round(v, 1)\<close> on a Python float: the exact value is rounded to one decimal
  place, ties to even, and the binary64 number nearest to that decimal is returned.\<close>

fun py_round1 :: "npfloat \<Rightarrow> npfloat" where
  "py_round1 (Fin v) = f64 (of_int (rint (v * 10)) / 10)"
| "py_round1 PInf = PInf"
| "py_round1 NInf = NInf"
| "py_round1 NaN = NaN"

subsection \<open>Points and the angle at a vertex\<close>

text \<open>A point is the two-element list \<^verbatim>\<open>[x, y]\<close> the evaluators build.\<close>

type_synonym point = "real \<times> real"

definition np_sub :: "point \<Rightarrow> point \<Rightarrow> point" where
  "np_sub u v = (fst u - fst v, snd u - snd v)"

definition np_dot :: "point \<Rightarrow> point \<Rightarrow> real" where
  "np_dot u v = fst u * fst v + snd u * snd v"

definition np_linalg_norm :: "point \<Rightarrow> real" where
  "np_linalg_norm u = sqrt (fst u * fst u + snd u * snd u)"

definition calculate_angle :: "point \<Rightarrow> point \<Rightarrow> point \<Rightarrow> npfloat" where
  "calculate_angle a b c =
     (let ba = np_sub a b;
          bc = np_sub c b;
          cosine_angle = np_divide (np_dot ba bc) (np_linalg_norm ba * np_linalg_norm bc);
          cosine_angle = np_clip cosine_angle (- 1) 1;
          angle = np_arccos cosine_angle
      in np_degrees angle)"

text \<open>
  \<open>calculate_angle\<close> above computes with the exact values of the operations. The same
  steps with every operation up to the quotient rounded to binary64:
  \<^verbatim>\<open>np.dot\<close> as the sum of the two products, \<^verbatim>\<open>np.linalg.norm\<close> as the square
  root of the dot product of the vector with itself. The inverse cosine and the
  conversion to degrees keep their mathematical values.
\<close>

type_synonym f64_vector = "npfloat \<times> npfloat"

definition np_sub_f64 :: "point \<Rightarrow> point \<Rightarrow> f64_vector" where
  "np_sub_f64 u v = (f64 (fst u - fst v), f64 (snd u - snd v))"

definition np_dot_f64 :: "f64_vector \<Rightarrow> f64_vector \<Rightarrow> npfloat" where
  "np_dot_f64 u v = f64_add (f64_mul (fst u) (fst v)) (f64_mul (snd u) (snd v))"

definition np_linalg_norm_f64 :: "f64_vector \<Rightarrow> npfloat" where
  "np_linalg_norm_f64 u = f64_sqrt (np_dot_f64 u u)"

definition calculate_angle_f64 :: "point \<Rightarrow> point \<Rightarrow> point \<Rightarrow> npfloat" where
  "calculate_angle_f64 a b c =
     (let ba = np_sub_f64 a b;
          bc = np_sub_f64 c b;
          cosine_angle = f64_div (np_dot_f64 ba bc)
                           (f64_mul (np_linalg_norm_f64 ba) (np_linalg_norm_f64 bc));
          cosine_angle = np_clip cosine_angle (- 1) 1;
          angle = np_arccos cosine_angle
      in np_degrees angle)"

subsection \<open>Landmarks\<close>

text \<open>
  A landmark carries the normalised image coordinates \<^verbatim>\<open>.x\<close> and \<^verbatim>\<open>.y\<close> (its
  depth and visibility are never read). The landmark set of a frame is a sequence
  indexed by the values of MediaPipe's \<^verbatim>\<open>PoseLandmark\<close> enumeration; only the
  members the analyser reads are listed, with MediaPipe's values. Indexing the
  sequence past its end raises \<^verbatim>\<open>IndexError\<close>.
\<close>

record landmark =
  lm_x :: real
  lm_y :: real

datatype PoseLandmark =
    NOSE
  | LEFT_EAR | RIGHT_EAR
  | LEFT_SHOULDER | RIGHT_SHOULDER
  | LEFT_HIP | RIGHT_HIP
  | LEFT_KNEE | RIGHT_KNEE
  | LEFT_ANKLE | RIGHT_ANKLE
  | LEFT_FOOT_INDEX | RIGHT_FOOT_INDEX

fun PoseLandmark_value :: "PoseLandmark \<Rightarrow> nat" where
  "PoseLandmark_value NOSE = 0"
| "PoseLandmark_value LEFT_EAR = 7"
| "PoseLandmark_value RIGHT_EAR = 8"
| "PoseLandmark_value LEFT_SHOULDER = 11"
| "PoseLandmark_value RIGHT_SHOULDER = 12"
| "PoseLandmark_value LEFT_HIP = 23"
| "PoseLandmark_value RIGHT_HIP = 24"
| "PoseLandmark_value LEFT_KNEE = 25"
| "PoseLandmark_value RIGHT_KNEE = 26"
| "PoseLandmark_value LEFT_ANKLE = 27"
| "PoseLandmark_value RIGHT_ANKLE = 28"
| "PoseLandmark_value LEFT_FOOT_INDEX = 31"
| "PoseLandmark_value RIGHT_FOOT_INDEX = 32"

datatype error = IndexError

definition landmark_at :: "landmark list \<Rightarrow> PoseLandmark \<Rightarrow> error + landmark" where
  "landmark_at landmarks j =
     (if PoseLandmark_value j < length landmarks
      then Inr (landmarks ! PoseLandmark_value j) else Inl IndexError)"

text \<open>Sequencing of computations that may raise: the first error ends the evaluation.\<close>

definition and_then :: "error + 'a \<Rightarrow> ('a \<Rightarrow> error + 'b) \<Rightarrow> error + 'b" where
  "and_then m f = (case m of Inl e \<Rightarrow> Inl e | Inr v \<Rightarrow> f v)"

text \<open>\<^verbatim>\<open>[landmarks[j].x, landmarks[j].y]\<close>\<close>

definition point_at :: "landmark list \<Rightarrow> PoseLandmark \<Rightarrow> error + point" where
  "point_at landmarks j =
     and_then (landmark_at landmarks j) (\<lambda>l1.
     and_then (landmark_at landmarks j) (\<lambda>l2. Inr (lm_x l1, lm_y l2)))"

subsection \<open>Facing direction\<close>

definition detect_facing_direction :: "landmark list \<Rightarrow> error + string" where
  "detect_facing_direction landmarks =
     and_then (landmark_at landmarks LEFT_SHOULDER) (\<lambda>l.
     and_then (landmark_at landmarks RIGHT_SHOULDER) (\<lambda>r.
     and_then (landmark_at landmarks NOSE) (\<lambda>n.
       let left_shoulder = lm_x l; right_shoulder = lm_x r; nose = lm_x n
       in if right_shoulder < nose \<or> left_shoulder < nose
          then Inr ''right'' else Inr ''left'')))"

subsection \<open>The result of an evaluation\<close>

text \<open>The dictionary an evaluator returns. \<open>angles\<close> keeps its two entries in
  insertion order. Strings are the bytes of the source file (UTF-8), so the degree sign
  of the messages is the two bytes \<open>0xC2 0xB0\<close>.\<close>

record evaluation =
  isGoodPosture :: bool
  feedback :: string
  angles :: "(string \<times> npfloat) list"
  warnings :: "string list"

definition degree_sign :: string where
  "degree_sign = [CHR 0xC2, CHR 0xB0]"

definition KNEE_OVER_TOE :: string where
  "KNEE_OVER_TOE = ''Knee extends beyond toe - risk of injury''"

definition SQUAT_BACK :: string where
  "SQUAT_BACK =
     ''Back angle too upright or too low - maintain natural forward lean (30'' @ degree_sign
     @ '' to 60'' @ degree_sign @ '' wrt thigh)''"

definition SQUAT_DEPTH :: string where
  "SQUAT_DEPTH =
     ''Squat depth needs improvement - aim for 90-degree knee bend (80'' @ degree_sign
     @ '' to 120'' @ degree_sign @ '')''"

definition HEAD_POSTURE :: string where
  "HEAD_POSTURE =
     ''Adjust head posture - align ears over shoulders (20'' @ degree_sign @ '' max)''"

definition SITTING_BACK :: string where
  "SITTING_BACK =
     ''Back not straight - maintain neutral spine (80'' @ degree_sign @ '' to 115''
     @ degree_sign @ '')''"

text \<open>\<^verbatim>\<open>if cond: warnings.append(msg); is_good_posture = False\<close>, on the pair of
  the two variables.\<close>

definition flag :: "bool \<Rightarrow> string \<Rightarrow> string list \<times> bool \<Rightarrow> string list \<times> bool" where
  "flag cond msg st = (if cond then (fst st @ [msg], False) else st)"

subsection \<open>Squat\<close>

text \<open>Lines 52 to 73: the landmarks of the side, in the order hip, knee, ankle, toe,
  shoulder. Every facing other than \<^verbatim>\<open>"left"\<close> takes the \<^verbatim>\<open>else\<close> branch.\<close>

definition squat_landmarks ::
  "landmark list \<Rightarrow> string \<Rightarrow> error + (point \<times> point \<times> point \<times> point \<times> point)" where
  "squat_landmarks landmarks facing =
     (if facing = ''left'' then
        and_then (point_at landmarks LEFT_HIP) (\<lambda>hip.
        and_then (point_at landmarks LEFT_KNEE) (\<lambda>knee.
        and_then (point_at landmarks LEFT_ANKLE) (\<lambda>ankle.
        and_then (point_at landmarks LEFT_FOOT_INDEX) (\<lambda>toe.
        and_then (point_at landmarks LEFT_SHOULDER) (\<lambda>shoulder.
          Inr (hip, knee, ankle, toe, shoulder))))))
      else
        and_then (point_at landmarks RIGHT_HIP) (\<lambda>hip.
        and_then (point_at landmarks RIGHT_KNEE) (\<lambda>knee.
        and_then (point_at landmarks RIGHT_ANKLE) (\<lambda>ankle.
        and_then (point_at landmarks RIGHT_FOOT_INDEX) (\<lambda>toe.
        and_then (point_at landmarks RIGHT_SHOULDER) (\<lambda>shoulder.
          Inr (hip, knee, ankle, toe, shoulder)))))))"

text \<open>Lines 75 to 103: the angles, the three rules and the result.\<close>

definition squat_rules ::
  "string \<Rightarrow> point \<Rightarrow> point \<Rightarrow> point \<Rightarrow> point \<Rightarrow> point \<Rightarrow> evaluation" where
  "squat_rules facing hip knee ankle toe shoulder =
     (let knee_angle = calculate_angle hip knee ankle;
          back_angle = calculate_angle shoulder hip knee;
          st = ([], True);
          st = flag ((facing = ''right'' \<and> fst toe < fst knee)
                     \<or> (facing = ''left'' \<and> fst knee < fst toe)) KNEE_OVER_TOE st;
          st = flag (\<not> (np_le (Fin 30) back_angle \<and> np_le back_angle (Fin 60))) SQUAT_BACK st;
          st = flag (\<not> (np_le (Fin 80) knee_angle \<and> np_le knee_angle (Fin 120))) SQUAT_DEPTH st;
          is_good_posture = snd st
      in \<lparr> isGoodPosture = is_good_posture,
           feedback = (if is_good_posture then ''Good squat form'' else ''Adjust your squat form''),
           angles = [(''knee'', round1 knee_angle), (''back'', round1 back_angle)],
           warnings = fst st \<rparr>)"

definition analyze_squat_posture :: "landmark list \<Rightarrow> string \<Rightarrow> error + evaluation" where
  "analyze_squat_posture landmarks facing =
     and_then (squat_landmarks landmarks facing) (\<lambda>(hip, knee, ankle, toe, shoulder).
       Inr (squat_rules facing hip knee ankle toe shoulder))"

subsection \<open>Sitting\<close>

text \<open>Lines 108 to 125: the landmarks of the side, in the order ear, shoulder, hip,
  knee.\<close>

definition sitting_landmarks ::
  "landmark list \<Rightarrow> string \<Rightarrow> error + (point \<times> point \<times> point \<times> point)" where
  "sitting_landmarks landmarks facing =
     (if facing = ''left'' then
        and_then (point_at landmarks LEFT_EAR) (\<lambda>ear.
        and_then (point_at landmarks LEFT_SHOULDER) (\<lambda>shoulder.
        and_then (point_at landmarks LEFT_HIP) (\<lambda>hip.
        and_then (point_at landmarks LEFT_KNEE) (\<lambda>knee.
          Inr (ear, shoulder, hip, knee)))))
      else
        and_then (point_at landmarks RIGHT_EAR) (\<lambda>ear.
        and_then (point_at landmarks RIGHT_SHOULDER) (\<lambda>shoulder.
        and_then (point_at landmarks RIGHT_HIP) (\<lambda>hip.
        and_then (point_at landmarks RIGHT_KNEE) (\<lambda>knee.
          Inr (ear, shoulder, hip, knee))))))"

text \<open>Lines 127 to 151: the neck measure, the back angle, the two rules and the result.
  The neck measure is Python float arithmetic on the two x-coordinates: a subtraction,
  \<^verbatim>\<open>abs\<close> and a multiplication by 100, each rounded to binary64.\<close>

definition sitting_rules :: "point \<Rightarrow> point \<Rightarrow> point \<Rightarrow> point \<Rightarrow> evaluation" where
  "sitting_rules ear shoulder hip knee =
     (let neck_angle = f64_mul (f64_abs (f64 (fst ear - fst shoulder))) (Fin 100);
          back_angle = calculate_angle shoulder hip knee;
          st = ([], True);
          st = flag (np_lt (Fin 10) neck_angle) HEAD_POSTURE st;
          st = flag (\<not> (np_le (Fin 80) back_angle \<and> np_le back_angle (Fin 115))) SITTING_BACK st;
          is_good_posture = snd st
      in \<lparr> isGoodPosture = is_good_posture,
           feedback = (if is_good_posture then ''Good sitting posture''
                       else ''Adjust your sitting position''),
           angles = [(''neck'', py_round1 neck_angle), (''back'', round1 back_angle)],
           warnings = fst st \<rparr>)"

definition analyze_sitting_posture :: "landmark list \<Rightarrow> string \<Rightarrow> error + evaluation" where
  "analyze_sitting_posture landmarks facing =
     and_then (sitting_landmarks landmarks facing) (\<lambda>(ear, shoulder, hip, knee).
       Inr (sitting_rules ear shoulder hip knee))"

subsection \<open>Notions used to state the properties\<close>

text \<open>The point \<^verbatim>\<open>[l.x, l.y]\<close> of a landmark.\<close>

definition xy :: "landmark \<Rightarrow> point" where
  "xy l = (lm_x l, lm_y l)"

text \<open>A landmark set has the given landmarks at the given joints.\<close>

definition has_landmarks :: "landmark list \<Rightarrow> (PoseLandmark \<times> landmark) list \<Rightarrow> bool" where
  "has_landmarks lms jls = list_all (\<lambda>(j, l). landmark_at lms j = Inr l) jls"

text \<open>Two landmark sets agree on a list of joints when indexing gives the same outcome
  in both, value or error, at each of them.\<close>

definition agree_on :: "PoseLandmark list \<Rightarrow> landmark list \<Rightarrow> landmark list \<Rightarrow> bool" where
  "agree_on js lms lms' = list_all (\<lambda>j. landmark_at lms j = landmark_at lms' j) js"

text \<open>The joint of the other side of the body.\<close>

fun opposite :: "PoseLandmark \<Rightarrow> PoseLandmark" where
  "opposite NOSE = NOSE"
| "opposite LEFT_EAR = RIGHT_EAR"
| "opposite RIGHT_EAR = LEFT_EAR"
| "opposite LEFT_SHOULDER = RIGHT_SHOULDER"
| "opposite RIGHT_SHOULDER = LEFT_SHOULDER"
| "opposite LEFT_HIP = RIGHT_HIP"
| "opposite RIGHT_HIP = LEFT_HIP"
| "opposite LEFT_KNEE = RIGHT_KNEE"
| "opposite RIGHT_KNEE = LEFT_KNEE"
| "opposite LEFT_ANKLE = RIGHT_ANKLE"
| "opposite RIGHT_ANKLE = LEFT_ANKLE"
| "opposite LEFT_FOOT_INDEX = RIGHT_FOOT_INDEX"
| "opposite RIGHT_FOOT_INDEX = LEFT_FOOT_INDEX"

text \<open>\<open>lms'\<close> mirrors \<open>lms\<close> on a list of joints when each of them reads in \<open>lms\<close>
  what the opposite joint reads in \<open>lms'\<close>.\<close>

definition mirrored_on :: "PoseLandmark list \<Rightarrow> landmark list \<Rightarrow> landmark list \<Rightarrow> bool" where
  "mirrored_on js lms lms' = list_all (\<lambda>j. landmark_at lms j = landmark_at lms' (opposite j)) js"

text \<open>The part of a squat result that does not depend on the direction of the
  knee-over-toe comparison.\<close>

definition direction_free :: "evaluation \<Rightarrow> (string \<times> npfloat) list \<times> string list" where
  "direction_free r = (angles r, filter (\<lambda>w. w \<noteq> KNEE_OVER_TOE) (warnings r))"

subsection \<open>Concrete frames\<close>

text \<open>A frame of MediaPipe has 33 landmarks. \<open>place\<close> sets one of them.\<close>

definition blank_frame :: "landmark list" where
  "blank_frame = replicate 33 \<lparr> lm_x = 0, lm_y = 0 \<rparr>"

definition place :: "PoseLandmark \<Rightarrow> real \<Rightarrow> real \<Rightarrow> landmark list \<Rightarrow> landmark list" where
  "place j px py lms = lms[PoseLandmark_value j := \<lparr> lm_x = px, lm_y = py \<rparr>]"

text \<open>The squat scenario of the specification, on the left side: hip, knee and ankle
  on one vertical line.\<close>

definition straight_leg_frame :: "landmark list" where
  "straight_leg_frame =
     place LEFT_HIP (1/2) (1/2) (place LEFT_KNEE (1/2) (13/20) (place LEFT_ANKLE (1/2) (17/20)
     (place LEFT_FOOT_INDEX (9/20) (17/20) (place LEFT_SHOULDER (1/2) (3/10) blank_frame))))"

text \<open>The same body seen from the other side.\<close>

definition straight_leg_mirror :: "landmark list" where
  "straight_leg_mirror =
     place RIGHT_HIP (1/2) (1/2) (place RIGHT_KNEE (1/2) (13/20) (place RIGHT_ANKLE (1/2) (17/20)
     (place RIGHT_FOOT_INDEX (9/20) (17/20) (place RIGHT_SHOULDER (1/2) (3/10) blank_frame))))"

text \<open>A squat facing right with the thigh horizontal, the shin vertical and the back
  at 45 degrees to the thigh; the toe is ahead of the knee.\<close>

definition good_squat_frame :: "landmark list" where
  "good_squat_frame =
     place RIGHT_HIP (1/2) (1/2) (place RIGHT_KNEE (7/10) (1/2) (place RIGHT_ANKLE (7/10) (7/10)
     (place RIGHT_FOOT_INDEX (4/5) (7/10) (place RIGHT_SHOULDER (7/10) (3/10) blank_frame))))"

text \<open>The seated scenario of the specification, on the left side, with the nose to the
  left of both shoulders.\<close>

definition seated_frame :: "landmark list" where
  "seated_frame =
     place LEFT_EAR (2/5) (1/5) (place LEFT_SHOULDER (2/5) (7/20) (place LEFT_HIP (2/5) (3/5)
     (place LEFT_KNEE (2/5) (9/10) (place RIGHT_SHOULDER (9/20) (7/20)
     (place NOSE (7/20) (1/5) blank_frame)))))"

text \<open>A seated body with a right angle at the hip and the ear 0.125 ahead of the
  shoulder, so that the neck measure is 12.5.\<close>

definition leaning_head_frame :: "landmark list" where
  "leaning_head_frame =
     place LEFT_EAR (3/8) (1/8) (place LEFT_SHOULDER (1/4) (1/4) (place LEFT_HIP (1/4) (1/2)
     (place LEFT_KNEE (1/2) (1/2) blank_frame)))"

text \<open>A seated body with a right angle at the hip, the shoulder at \<open>x = 0\<close> and the ear
  at the binary64 number nearest to 0.1, which is a little more than 0.1: its exact
  product with 100 is greater than 10, and its binary64 product with 100 is 10.\<close>

definition boundary_neck_frame :: "landmark list" where
  "boundary_neck_frame =
     place LEFT_EAR (3602879701896397 / 36028797018963968) (1/8)
     (place LEFT_SHOULDER 0 (1/4) (place LEFT_HIP 0 (1/2)
     (place LEFT_KNEE (1/4) (1/2) blank_frame)))"

text \<open>A frame with the straight leg on its left side and the good squat on its right
  side, and an ear on each side.\<close>

definition two_sided_frame :: "landmark list" where
  "two_sided_frame =
     place LEFT_EAR (1/2) (1/5) (place RIGHT_EAR (33/40) (1/5)
     (place LEFT_HIP (1/2) (1/2) (place LEFT_KNEE (1/2) (13/20) (place LEFT_ANKLE (1/2) (17/20)
     (place LEFT_FOOT_INDEX (9/20) (17/20) (place LEFT_SHOULDER (1/2) (3/10)
     good_squat_frame))))))"

section \<open>Properties\<close>

subsection \<open>Auxiliary facts\<close>

lemma and_then_Inl: "and_then (Inl e) f = Inl e"
  by (simp add: and_then_def)

lemma and_then_Inr: "and_then (Inr v) f = f v"
  by (simp add: and_then_def)

lemmas and_then_simps = and_then_Inl and_then_Inr

lemma point_at_landmark:
  "point_at lms j = (case landmark_at lms j of Inl e \<Rightarrow> Inl e | Inr l \<Rightarrow> Inr (lm_x l, lm_y l))"
  by (simp add: point_at_def and_then_def split: sum.splits)

lemmas frame_defs = straight_leg_frame_def straight_leg_mirror_def good_squat_frame_def
  seated_frame_def leaning_head_frame_def boundary_neck_frame_def two_sided_frame_def
  blank_frame_def place_def landmark_at_def

lemma pow2_powr: "pow2 e = 2 powr of_int e"
  by (simp add: pow2_def powr_real_of_int field_simps)

lemma pow2_pos: "0 < pow2 e"
  by (simp add: pow2_powr)

lemma rint_unique: "\<bar>v - of_int m\<bar> < 1 / 2 \<Longrightarrow> rint v = m"
proof -
  assume a: "\<bar>v - of_int m\<bar> < 1 / 2"
  show ?thesis
  proof (cases "of_int m \<le> v")
    case True
    with a have f: "\<lfloor>v\<rfloor> = m" by (intro floor_unique) (auto simp: abs_if split: if_splits)
    with a True show ?thesis by (simp add: rint_def Let_def)
  next
    case False
    with a have f: "\<lfloor>v\<rfloor> = m - 1" by (intro floor_unique) (auto simp: abs_if split: if_splits)
    with a False show ?thesis by (auto simp add: rint_def Let_def abs_if split: if_splits)
  qed
qed

lemma f64_not_NaN: "f64 v \<noteq> NaN"
  by (simp add: f64_def Let_def)

lemma f64_zero: "f64 0 = Fin 0"
  by (simp add: f64_def)

lemma f64_finite_iff: "(\<exists>w. f64 v = Fin w) = (\<bar>v\<bar> < f64_overflow)"
  by (auto simp add: f64_def Let_def f64_overflow_def abs_if)

lemma f64_normal:
  assumes "pow2 e \<le> \<bar>v\<bar>" and "\<bar>v\<bar> < pow2 (e + 1)" and "- 1022 \<le> e"
    and "\<bar>v\<bar> < f64_overflow"
    and "\<bar>v / pow2 (e - 52) - of_int m\<bar> < 1 / 2"
  shows "f64 v = Fin (of_int m * pow2 (e - 52))"
proof -
  from assms(1) pow2_pos [of e] have nz: "v \<noteq> 0" by auto
  then have pos: "0 < \<bar>v\<bar>" by simp
  have "\<lfloor>log 2 \<bar>v\<bar>\<rfloor> = e"
    using assms(1,2) pos by (simp add: floor_log_eq_powr_iff pow2_powr)
  then have e: "max \<lfloor>log 2 \<bar>v\<bar>\<rfloor> (- 1022) = e"
    using assms(3) by simp
  from assms(4) have r: "\<not> f64_overflow \<le> v" "\<not> v \<le> - f64_overflow" by auto
  show ?thesis
    unfolding f64_def Let_def e using nz r rint_unique [OF assms(5)] by simp
qed

lemma f64_subnormal:
  assumes "\<bar>v\<bar> < pow2 (- 1022)"
    and "\<bar>v / pow2 (- 1074) - of_int m\<bar> < 1 / 2"
  shows "f64 v = Fin (of_int m * pow2 (- 1074))"
proof (cases "v = 0")
  case True
  with assms(2) have "\<bar>real_of_int m\<bar> < 1 / 2" by simp
  then have "m = 0" by linarith
  with True show ?thesis by (simp add: f64_zero)
next
  case False
  then have pos: "0 < \<bar>v\<bar>" by simp
  have "log 2 \<bar>v\<bar> < of_int (- 1022)"
    using assms(1) pos by (simp add: pow2_powr log_less_iff)
  then have "\<lfloor>log 2 \<bar>v\<bar>\<rfloor> < - 1022" by (simp add: floor_less_iff)
  then have e: "max \<lfloor>log 2 \<bar>v\<bar>\<rfloor> (- 1022) = - 1022" by simp
  have "pow2 (- 1022) < f64_overflow"
    by (simp add: pow2_def f64_overflow_def)
  with assms(1) have "\<bar>v\<bar> < f64_overflow" by simp
  then have r: "\<not> f64_overflow \<le> v" "\<not> v \<le> - f64_overflow" by auto
  show ?thesis
    unfolding f64_def Let_def e using False r rint_unique [OF assms(2)] by simp
qed

lemma f64_mul_FinD:
  assumes "f64_mul u v = Fin d"
  obtains p q where "u = Fin p" "v = Fin q" "f64 (p * q) = Fin d"
  using assms by (cases u; cases v) (auto split: if_splits)

lemma f64_add_FinD:
  assumes "f64_add u v = Fin d"
  obtains p q where "u = Fin p" "v = Fin q" "f64 (p + q) = Fin d"
  using assms by (cases u; cases v) auto

lemma f64_sqrt_FinD:
  assumes "f64_sqrt u = Fin d"
  obtains p where "u = Fin p"
  using assms by (cases u) auto

lemma abs_mult_le_max_squares: "\<bar>p * q\<bar> \<le> max (p * p) (q * q)" for p q :: real
proof (cases "\<bar>p\<bar> \<le> \<bar>q\<bar>")
  case True
  then have "\<bar>p\<bar> * \<bar>q\<bar> \<le> \<bar>q\<bar> * \<bar>q\<bar>"
    by (intro mult_right_mono) simp_all
  then show ?thesis by (simp add: abs_mult)
next
  case False
  then have "\<bar>p\<bar> * \<bar>q\<bar> \<le> \<bar>p\<bar> * \<bar>p\<bar>"
    by (intro mult_left_mono) simp_all
  then show ?thesis by (simp add: abs_mult)
qed

lemma f64_mul_finite_squares:
  assumes "f64 (p * p) = Fin s" and "f64 (q * q) = Fin t"
  shows "\<exists>w. f64 (p * q) = Fin w"
proof -
  from assms have "\<bar>p * p\<bar> < f64_overflow" "\<bar>q * q\<bar> < f64_overflow"
    using f64_finite_iff by blast+
  then have "max (p * p) (q * q) < f64_overflow" by simp
  with abs_mult_le_max_squares [of p q] have "\<bar>p * q\<bar> < f64_overflow"
    by (rule le_less_trans)
  then show ?thesis by (simp add: f64_finite_iff)
qed

lemma np_linalg_norm_f64_FinD:
  assumes "np_linalg_norm_f64 u = Fin n"
  obtains p q s t where "u = (Fin p, Fin q)" "f64 (p * p) = Fin s" "f64 (q * q) = Fin t"
proof -
  from assms obtain d where "np_dot_f64 u u = Fin d"
    unfolding np_linalg_norm_f64_def by (rule f64_sqrt_FinD)
  then obtain s t where s: "f64_mul (fst u) (fst u) = Fin s" and t: "f64_mul (snd u) (snd u) = Fin t"
    unfolding np_dot_f64_def by (rule f64_add_FinD)
  from s obtain p where p: "fst u = Fin p" "f64 (p * p) = Fin s"
    by (rule f64_mul_FinD) auto
  from t obtain q where q: "snd u = Fin q" "f64 (q * q) = Fin t"
    by (rule f64_mul_FinD) auto
  from p q have "u = (Fin p, Fin q)" by (cases u) simp
  with p q that show thesis by blast
qed

lemma np_dot_f64_not_NaN:
  assumes "np_linalg_norm_f64 u = Fin m" and "np_linalg_norm_f64 v = Fin n"
  shows "np_dot_f64 u v \<noteq> NaN"
proof -
  from assms(1) obtain p q s t where u: "u = (Fin p, Fin q)"
    and pq: "f64 (p * p) = Fin s" "f64 (q * q) = Fin t"
    by (rule np_linalg_norm_f64_FinD)
  from assms(2) obtain p' q' s' t' where v: "v = (Fin p', Fin q')"
    and pq': "f64 (p' * p') = Fin s'" "f64 (q' * q') = Fin t'"
    by (rule np_linalg_norm_f64_FinD)
  from f64_mul_finite_squares [OF pq(1) pq'(1)] obtain w where w: "f64 (p * p') = Fin w" ..
  from f64_mul_finite_squares [OF pq(2) pq'(2)] obtain w' where w': "f64 (q * q') = Fin w'" ..
  show ?thesis
    by (simp add: np_dot_f64_def u v w w' f64_not_NaN)
qed

lemma f64_div_not_NaN:
  assumes "u \<noteq> NaN" and "d \<noteq> 0"
  shows "f64_div u (Fin d) \<noteq> NaN"
  using assms by (cases u) (simp_all add: f64_not_NaN)

lemma np_clip_unit:
  assumes "u \<noteq> NaN"
  obtains t where "np_clip u (- 1) 1 = Fin t" "- 1 \<le> t" "t \<le> 1"
  using assms by (cases u) simp_all

lemma f64_tiny: "f64 (1 / 2 ^ 600) = Fin (1 / 2 ^ 600)"
  using f64_normal [of "- 600" "1 / 2 ^ 600" "2 ^ 52"]
  by (simp add: pow2_def f64_overflow_def)

lemma f64_tiny_square: "f64 (1 / 2 ^ 600 * (1 / 2 ^ 600)) = Fin 0"
  using f64_subnormal [of "1 / 2 ^ 600 * (1 / 2 ^ 600)" 0]
  by (simp add: pow2_def)

lemma underflow_value:
  "calculate_angle_f64 (1 / 2 ^ 600, 0) (0, 0) (0, 1 / 2 ^ 600) = NaN"
  using f64_tiny f64_tiny_square
  by (simp add: calculate_angle_f64_def Let_def np_sub_f64_def np_dot_f64_def
      np_linalg_norm_f64_def f64_zero)

lemma f64_quarter: "f64 (1 / 4) = Fin (1 / 4)"
  using f64_normal [of "- 2" "1 / 4" "2 ^ 52"]
  by (simp add: pow2_def f64_overflow_def)

lemma f64_three_eighths: "f64 (3 / 8) = Fin (3 / 8)"
  using f64_normal [of "- 2" "3 / 8" "3 * 2 ^ 51"]
  by (simp add: pow2_def f64_overflow_def)

lemma f64_sixteenth: "f64 (1 / 16) = Fin (1 / 16)"
  using f64_normal [of "- 4" "1 / 16" "2 ^ 52"]
  by (simp add: pow2_def f64_overflow_def)

lemma f64_nine_64: "f64 (9 / 64) = Fin (9 / 64)"
  using f64_normal [of "- 3" "9 / 64" "9 * 2 ^ 49"]
  by (simp add: pow2_def f64_overflow_def)

lemma f64_thirteen_64: "f64 (13 / 64) = Fin (13 / 64)"
  using f64_normal [of "- 3" "13 / 64" "13 * 2 ^ 49"]
  by (simp add: pow2_def f64_overflow_def)

lemma near_integer:
  fixes s k m :: real
  assumes "(m - 1 / 2) / k < s" and "s < (m + 1 / 2) / k" and "0 < k"
  shows "\<bar>s * k - m\<bar> < 1 / 2"
proof -
  from assms(1,3) have "m - 1 / 2 < s * k" by (simp add: pos_divide_less_eq)
  moreover from assms(2,3) have "s * k < m + 1 / 2" by (simp add: pos_less_divide_eq)
  ultimately show ?thesis unfolding abs_less_iff by linarith
qed

lemma sqrt_13_64_bounds:
  "(8118979690322419 - 1 / 2) / 2 ^ 54 < sqrt (13 / 64)"
  "sqrt (13 / 64) < (8118979690322419 + 1 / 2) / 2 ^ 54"
  by (rule real_less_rsqrt, simp add: power2_eq_square)
     (rule real_less_lsqrt, simp_all add: power2_eq_square)

lemma f64_sqrt_13_64: "f64 (sqrt (13 / 64)) = Fin (8118979690322419 / 2 ^ 54)"
proof -
  have lo: "1 / 4 \<le> sqrt (13 / 64)"
    by (rule real_le_rsqrt) (simp add: power2_eq_square)
  have hi: "sqrt (13 / 64) < 1 / 2"
    by (rule real_less_lsqrt) (simp_all add: power2_eq_square)
  have "\<bar>sqrt (13 / 64) * 2 ^ 54 - 8118979690322419\<bar> < 1 / 2"
    by (rule near_integer [OF sqrt_13_64_bounds]) simp
  then have near: "\<bar>sqrt (13 / 64) / pow2 (- 2 - 52) - of_int 8118979690322419\<bar> < 1 / 2"
    by (simp add: pow2_def)
  have ov: "\<bar>sqrt (13 / 64)\<bar> < f64_overflow"
    using hi by (simp add: f64_overflow_def)
  from f64_normal [of "- 2" "sqrt (13 / 64)" 8118979690322419] lo hi near ov
  show ?thesis by (simp add: pow2_def)
qed

lemma f64_norm_square:
  "f64 (8118979690322419 / 2 ^ 54 * (8118979690322419 / 2 ^ 54))
   = Fin (7318349394477055 / 2 ^ 55)"
proof -
  have "f64 (8118979690322419 / 2 ^ 54 * (8118979690322419 / 2 ^ 54))
      = Fin (of_int 7318349394477055 * pow2 (- 3 - 52))"
    by (rule f64_normal) (simp_all add: pow2_def f64_overflow_def)
  then show ?thesis by (simp add: pow2_def)
qed

lemma f64_quotient:
  "f64 (13 / 64 / (7318349394477055 / 2 ^ 55)) = Fin (1 + 1 / 2 ^ 52)"
proof -
  have "f64 (13 / 64 / (7318349394477055 / 2 ^ 55))
      = Fin (of_int (2 ^ 52 + 1) * pow2 (0 - 52))"
    by (rule f64_normal) (simp_all add: pow2_def f64_overflow_def)
  then show ?thesis by (simp add: pow2_def)
qed

lemma rounded_norm_product:
  "f64_mul (np_linalg_norm_f64 (np_sub_f64 (1/4, 3/8) (0, 0)))
           (np_linalg_norm_f64 (np_sub_f64 (1/4, 3/8) (0, 0)))
   = Fin (7318349394477055 / 2 ^ 55)"
  using f64_quarter f64_three_eighths f64_sixteenth f64_nine_64 f64_thirteen_64
    f64_sqrt_13_64 f64_norm_square
  by (simp add: np_linalg_norm_f64_def np_dot_f64_def np_sub_f64_def)

lemma rounded_quotient:
  "f64_div (np_dot_f64 (np_sub_f64 (1/4, 3/8) (0, 0)) (np_sub_f64 (1/4, 3/8) (0, 0)))
           (Fin (7318349394477055 / 2 ^ 55))
   = Fin (1 + 1 / 2 ^ 52)"
  using f64_quotient f64_quarter f64_three_eighths f64_sixteenth f64_nine_64 f64_thirteen_64
  by (simp add: np_dot_f64_def np_sub_f64_def)

text \<open>The rounded computation is symmetric in its end points and returns \<^verbatim>\<open>nan\<close> on a
  degenerate triple, as the exact one.\<close>

lemma f64_add_commute: "f64_add u v = f64_add v u"
  by (cases u; cases v) (simp_all add: add.commute)

lemma f64_mul_commute: "f64_mul u v = f64_mul v u"
  by (cases u; cases v) (simp_all add: mult.commute)

lemma np_dot_f64_commute: "np_dot_f64 u v = np_dot_f64 v u"
  by (simp add: np_dot_f64_def f64_mul_commute)

lemma calculate_angle_f64_symmetric: "calculate_angle_f64 a b c = calculate_angle_f64 c b a"
  by (simp add: calculate_angle_f64_def Let_def np_dot_f64_commute [of "np_sub_f64 a b"]
      f64_mul_commute [of "np_linalg_norm_f64 (np_sub_f64 a b)"])

lemma f64_mul_zero: "f64_mul (Fin 0) u = Fin 0 \<or> f64_mul (Fin 0) u = NaN"
  by (cases u) (simp_all add: f64_zero)

lemma f64_add_zero_or_NaN:
  "u = Fin 0 \<or> u = NaN \<Longrightarrow> v = Fin 0 \<or> v = NaN \<Longrightarrow> f64_add u v = Fin 0 \<or> f64_add u v = NaN"
  by (auto simp add: f64_zero)

lemma f64_div_zero_or_NaN:
  "u = Fin 0 \<or> u = NaN \<Longrightarrow> v = Fin 0 \<or> v = NaN \<Longrightarrow> f64_div u v = NaN"
  by auto

lemma np_sub_f64_self: "np_sub_f64 a a = (Fin 0, Fin 0)"
  by (simp add: np_sub_f64_def f64_zero)

lemma np_dot_f64_zero: "np_dot_f64 (Fin 0, Fin 0) v = Fin 0 \<or> np_dot_f64 (Fin 0, Fin 0) v = NaN"
  unfolding np_dot_f64_def fst_conv snd_conv
  by (rule f64_add_zero_or_NaN) (rule f64_mul_zero)+

lemma np_linalg_norm_f64_zero: "np_linalg_norm_f64 (Fin 0, Fin 0) = Fin 0"
  by (simp add: np_linalg_norm_f64_def np_dot_f64_def f64_zero)

lemma calculate_angle_f64_degenerate_left: "calculate_angle_f64 b b c = NaN"
proof -
  have "f64_div (np_dot_f64 (Fin 0, Fin 0) (np_sub_f64 c b))
          (f64_mul (Fin 0) (np_linalg_norm_f64 (np_sub_f64 c b))) = NaN"
    by (rule f64_div_zero_or_NaN [OF np_dot_f64_zero f64_mul_zero])
  then show ?thesis
    by (simp add: calculate_angle_f64_def Let_def np_sub_f64_self np_linalg_norm_f64_zero)
qed

lemma calculate_angle_f64_degenerate:
  "a = b \<or> c = b \<Longrightarrow> calculate_angle_f64 a b c = NaN"
  using calculate_angle_f64_degenerate_left [of b c] calculate_angle_f64_degenerate_left [of b a]
    calculate_angle_f64_symmetric [of a b b]
  by auto

lemma np_dot_commute: "np_dot u v = np_dot v u"
  by (simp add: np_dot_def mult.commute)

lemma np_linalg_norm_zero: "np_linalg_norm (np_sub a a) = 0"
  by (simp add: np_linalg_norm_def np_sub_def)

lemma np_dot_zero_left: "np_dot (np_sub a a) v = 0"
  by (simp add: np_dot_def np_sub_def)

lemma np_dot_zero_right: "np_dot u (np_sub a a) = 0"
  by (simp add: np_dot_def np_sub_def)

lemma np_degrees_arccos_range:
  "- 1 \<le> v \<Longrightarrow> v \<le> 1 \<Longrightarrow>
   np_le (Fin 0) (np_degrees (np_arccos (Fin v)))
   \<and> np_le (np_degrees (np_arccos (Fin v))) (Fin 180)"
  using arccos_lbound [of v] arccos_ubound [of v]
  by (simp add: field_simps)

lemma calculate_angle_eval:
  assumes "np_linalg_norm (np_sub a b) = n1"
    and "np_linalg_norm (np_sub c b) = n2"
    and "n1 * n2 \<noteq> 0"
    and "np_dot (np_sub a b) (np_sub c b) / (n1 * n2) = q"
    and "- 1 \<le> q" and "q \<le> 1"
    and "arccos q = t * pi / 180"
  shows "calculate_angle a b c = Fin t"
  using assms by (simp add: calculate_angle_def Let_def np_divide_def)

lemma norm_eval:
  assumes "0 \<le> n" and "n * n = fst u * fst u + snd u * snd u"
  shows "np_linalg_norm u = n"
  unfolding np_linalg_norm_def
  by (rule real_sqrt_unique) (simp_all add: assms power2_eq_square)

lemma straight_knee: "calculate_angle (1/2, 1/2) (1/2, 13/20) (1/2, 17/20) = Fin 180"
proof (rule calculate_angle_eval)
  show "np_linalg_norm (np_sub (1/2, 1/2) (1/2, 13/20)) = 3/20"
    by (rule norm_eval) (simp_all add: np_sub_def)
  show "np_linalg_norm (np_sub (1/2, 17/20) (1/2, 13/20)) = 1/5"
    by (rule norm_eval) (simp_all add: np_sub_def)
  show "np_dot (np_sub (1/2, 1/2) (1/2, 13/20)) (np_sub (1/2, 17/20) (1/2, 13/20))
        / (3/20 * (1/5)) = - 1"
    by (simp add: np_dot_def np_sub_def)
  show "arccos (- 1) = 180 * pi / 180" by simp
qed simp_all

lemma straight_back: "calculate_angle (1/2, 3/10) (1/2, 1/2) (1/2, 13/20) = Fin 180"
proof (rule calculate_angle_eval)
  show "np_linalg_norm (np_sub (1/2, 3/10) (1/2, 1/2)) = 1/5"
    by (rule norm_eval) (simp_all add: np_sub_def)
  show "np_linalg_norm (np_sub (1/2, 13/20) (1/2, 1/2)) = 3/20"
    by (rule norm_eval) (simp_all add: np_sub_def)
  show "np_dot (np_sub (1/2, 3/10) (1/2, 1/2)) (np_sub (1/2, 13/20) (1/2, 1/2))
        / (1/5 * (3/20)) = - 1"
    by (simp add: np_dot_def np_sub_def)
  show "arccos (- 1) = 180 * pi / 180" by simp
qed simp_all

lemma straight_seated_back: "calculate_angle (2/5, 7/20) (2/5, 3/5) (2/5, 9/10) = Fin 180"
proof (rule calculate_angle_eval)
  show "np_linalg_norm (np_sub (2/5, 7/20) (2/5, 3/5)) = 1/4"
    by (rule norm_eval) (simp_all add: np_sub_def)
  show "np_linalg_norm (np_sub (2/5, 9/10) (2/5, 3/5)) = 3/10"
    by (rule norm_eval) (simp_all add: np_sub_def)
  show "np_dot (np_sub (2/5, 7/20) (2/5, 3/5)) (np_sub (2/5, 9/10) (2/5, 3/5))
        / (1/4 * (3/10)) = - 1"
    by (simp add: np_dot_def np_sub_def)
  show "arccos (- 1) = 180 * pi / 180" by simp
qed simp_all

lemma right_angle_knee: "calculate_angle (1/2, 1/2) (7/10, 1/2) (7/10, 7/10) = Fin 90"
proof (rule calculate_angle_eval)
  show "np_linalg_norm (np_sub (1/2, 1/2) (7/10, 1/2)) = 1/5"
    by (rule norm_eval) (simp_all add: np_sub_def)
  show "np_linalg_norm (np_sub (7/10, 7/10) (7/10, 1/2)) = 1/5"
    by (rule norm_eval) (simp_all add: np_sub_def)
  show "np_dot (np_sub (1/2, 1/2) (7/10, 1/2)) (np_sub (7/10, 7/10) (7/10, 1/2))
        / (1/5 * (1/5)) = 0"
    by (simp add: np_dot_def np_sub_def)
  show "arccos 0 = 90 * pi / 180" by simp
qed simp_all

lemma sqrt2_half_le_1: "sqrt 2 / 2 \<le> 1"
proof -
  have "sqrt 2 \<le> 2" by (rule real_le_lsqrt) simp_all
  then show ?thesis by simp
qed

lemma half_right_angle_back: "calculate_angle (7/10, 3/10) (1/2, 1/2) (7/10, 1/2) = Fin 45"
proof (rule calculate_angle_eval)
  show "np_linalg_norm (np_sub (7/10, 3/10) (1/2, 1/2)) = sqrt 2 / 5"
    by (rule norm_eval) (simp_all add: np_sub_def)
  show "np_linalg_norm (np_sub (7/10, 1/2) (1/2, 1/2)) = 1/5"
    by (rule norm_eval) (simp_all add: np_sub_def)
  show "np_dot (np_sub (7/10, 3/10) (1/2, 1/2)) (np_sub (7/10, 1/2) (1/2, 1/2))
        / (sqrt 2 / 5 * (1/5)) = sqrt 2 / 2"
    by (simp add: np_dot_def np_sub_def field_simps)
  have "arccos (cos (pi / 4)) = pi / 4"
    by (rule arccos_cos) simp_all
  then show "arccos (sqrt 2 / 2) = 45 * pi / 180"
    by (simp add: cos_45)
  show "sqrt 2 / 2 \<le> 1" by (rule sqrt2_half_le_1)
  show "- 1 \<le> sqrt 2 / 2" by (rule order_trans [of _ 0]) simp_all
qed simp_all

lemma flag_fst:
  "fst (flag c3 m3 (flag c2 m2 (flag c1 m1 ([], True)))) =
     (if c1 then [m1] else []) @ (if c2 then [m2] else []) @ (if c3 then [m3] else [])"
  by (simp add: flag_def)

lemma flag_snd:
  "snd (flag c3 m3 (flag c2 m2 (flag c1 m1 ([], True)))) = (\<not> c1 \<and> \<not> c2 \<and> \<not> c3)"
  by (simp add: flag_def)

lemma flag2_fst:
  "fst (flag c2 m2 (flag c1 m1 ([], True))) = (if c1 then [m1] else []) @ (if c2 then [m2] else [])"
  by (simp add: flag_def)

lemma flag2_snd:
  "snd (flag c2 m2 (flag c1 m1 ([], True))) = (\<not> c1 \<and> \<not> c2)"
  by (simp add: flag_def)

lemma squat_rules_warnings:
  "warnings (squat_rules facing hip knee ankle toe shoulder) =
     (if (facing = ''right'' \<and> fst toe < fst knee) \<or> (facing = ''left'' \<and> fst knee < fst toe)
      then [KNEE_OVER_TOE] else [])
     @ (if \<not> (np_le (Fin 30) (calculate_angle shoulder hip knee)
              \<and> np_le (calculate_angle shoulder hip knee) (Fin 60))
        then [SQUAT_BACK] else [])
     @ (if \<not> (np_le (Fin 80) (calculate_angle hip knee ankle)
              \<and> np_le (calculate_angle hip knee ankle) (Fin 120))
        then [SQUAT_DEPTH] else [])"
  unfolding squat_rules_def Let_def evaluation.simps flag_fst ..

lemma squat_rules_isGoodPosture:
  "isGoodPosture (squat_rules facing hip knee ankle toe shoulder) =
     (\<not> ((facing = ''right'' \<and> fst toe < fst knee) \<or> (facing = ''left'' \<and> fst knee < fst toe))
      \<and> \<not> \<not> (np_le (Fin 30) (calculate_angle shoulder hip knee)
              \<and> np_le (calculate_angle shoulder hip knee) (Fin 60))
      \<and> \<not> \<not> (np_le (Fin 80) (calculate_angle hip knee ankle)
              \<and> np_le (calculate_angle hip knee ankle) (Fin 120)))"
  unfolding squat_rules_def Let_def evaluation.simps flag_snd ..


lemma squat_rules_angles:
  "angles (squat_rules facing hip knee ankle toe shoulder) =
     [(''knee'', round1 (calculate_angle hip knee ankle)),
      (''back'', round1 (calculate_angle shoulder hip knee))]"
  unfolding squat_rules_def Let_def evaluation.simps ..

lemma sitting_rules_warnings:
  "warnings (sitting_rules ear shoulder hip knee) =
     (if np_lt (Fin 10) (f64_mul (f64_abs (f64 (fst ear - fst shoulder))) (Fin 100))
      then [HEAD_POSTURE] else [])
     @ (if \<not> (np_le (Fin 80) (calculate_angle shoulder hip knee)
              \<and> np_le (calculate_angle shoulder hip knee) (Fin 115))
        then [SITTING_BACK] else [])"
  unfolding sitting_rules_def Let_def evaluation.simps flag2_fst ..

lemma sitting_rules_isGoodPosture:
  "isGoodPosture (sitting_rules ear shoulder hip knee) =
     (\<not> np_lt (Fin 10) (f64_mul (f64_abs (f64 (fst ear - fst shoulder))) (Fin 100))
      \<and> \<not> \<not> (np_le (Fin 80) (calculate_angle shoulder hip knee)
              \<and> np_le (calculate_angle shoulder hip knee) (Fin 115)))"
  unfolding sitting_rules_def Let_def evaluation.simps flag2_snd ..

lemma sitting_rules_feedback:
  "feedback (sitting_rules ear shoulder hip knee) =
     (if isGoodPosture (sitting_rules ear shoulder hip knee)
      then ''Good sitting posture'' else ''Adjust your sitting position'')"
  unfolding sitting_rules_def Let_def evaluation.simps ..


lemma squat_messages_distinct:
  "KNEE_OVER_TOE \<noteq> SQUAT_BACK" "KNEE_OVER_TOE \<noteq> SQUAT_DEPTH" "SQUAT_BACK \<noteq> SQUAT_DEPTH"
  by (simp_all add: KNEE_OVER_TOE_def SQUAT_BACK_def SQUAT_DEPTH_def)



lemma analyze_squat_posture_selected:
  "squat_landmarks lms facing = Inr (hip, knee, ankle, toe, shoulder) \<Longrightarrow>
   analyze_squat_posture lms facing = Inr (squat_rules facing hip knee ankle toe shoulder)"
  by (simp add: analyze_squat_posture_def and_then_Inr)

lemma analyze_sitting_posture_selected:
  "sitting_landmarks lms facing = Inr (ear, shoulder, hip, knee) \<Longrightarrow>
   analyze_sitting_posture lms facing = Inr (sitting_rules ear shoulder hip knee)"
  by (simp add: analyze_sitting_posture_def and_then_Inr)

lemma analyze_squat_posture_InrD:
  assumes "analyze_squat_posture lms facing = Inr r"
  obtains hip knee ankle toe shoulder where
    "squat_landmarks lms facing = Inr (hip, knee, ankle, toe, shoulder)"
    "r = squat_rules facing hip knee ankle toe shoulder"
  using assms
  by (auto simp add: analyze_squat_posture_def and_then_def split: sum.splits)

lemma analyze_sitting_posture_InrD:
  assumes "analyze_sitting_posture lms facing = Inr r"
  obtains ear shoulder hip knee where
    "sitting_landmarks lms facing = Inr (ear, shoulder, hip, knee)"
    "r = sitting_rules ear shoulder hip knee"
  using assms
  by (auto simp add: analyze_sitting_posture_def and_then_def split: sum.splits)

lemma squat_rules_invariant:
  "(warnings (squat_rules facing hip knee ankle toe shoulder) = [])
   = isGoodPosture (squat_rules facing hip knee ankle toe shoulder)"
  unfolding squat_rules_warnings squat_rules_isGoodPosture by simp

lemma sitting_rules_invariant:
  "(warnings (sitting_rules ear shoulder hip knee) = [])
   = isGoodPosture (sitting_rules ear shoulder hip knee)"
  unfolding sitting_rules_warnings sitting_rules_isGoodPosture by simp

lemmas select_defs = squat_landmarks_def sitting_landmarks_def point_at_landmark and_then_simps

lemma good_squat_selected:
  "squat_landmarks good_squat_frame ''right''
   = Inr ((1/2, 1/2), (7/10, 1/2), (7/10, 7/10), (4/5, 7/10), (7/10, 3/10))"
  by (simp add: select_defs frame_defs)

lemma seated_selected:
  "sitting_landmarks seated_frame ''left''
   = Inr ((2/5, 1/5), (2/5, 7/20), (2/5, 3/5), (2/5, 9/10))"
  by (simp add: select_defs frame_defs)



lemma direction_free_squat_rules:
  "direction_free (squat_rules facing hip knee ankle toe shoulder) =
     ([(''knee'', round1 (calculate_angle hip knee ankle)),
       (''back'', round1 (calculate_angle shoulder hip knee))],
      (if \<not> (np_le (Fin 30) (calculate_angle shoulder hip knee)
              \<and> np_le (calculate_angle shoulder hip knee) (Fin 60))
        then [SQUAT_BACK] else [])
      @ (if \<not> (np_le (Fin 80) (calculate_angle hip knee ankle)
              \<and> np_le (calculate_angle hip knee ankle) (Fin 120))
        then [SQUAT_DEPTH] else []))"
  using squat_messages_distinct
  by (simp add: direction_free_def squat_rules_warnings squat_rules_angles)

lemma squat_landmarks_left_cong:
  assumes "agree_on [LEFT_HIP, LEFT_KNEE, LEFT_ANKLE, LEFT_FOOT_INDEX, LEFT_SHOULDER] lms lms'"
  shows "squat_landmarks lms ''left'' = squat_landmarks lms' ''left''"
  using assms by (simp add: agree_on_def squat_landmarks_def point_at_landmark)

lemma squat_landmarks_right_cong:
  assumes "agree_on [RIGHT_HIP, RIGHT_KNEE, RIGHT_ANKLE, RIGHT_FOOT_INDEX, RIGHT_SHOULDER] lms lms'"
    and "facing \<noteq> ''left''"
  shows "squat_landmarks lms facing = squat_landmarks lms' facing"
  using assms by (simp add: agree_on_def squat_landmarks_def point_at_landmark)

lemma sitting_landmarks_left_cong:
  assumes "agree_on [LEFT_EAR, LEFT_SHOULDER, LEFT_HIP, LEFT_KNEE] lms lms'"
  shows "sitting_landmarks lms ''left'' = sitting_landmarks lms' ''left''"
  using assms by (simp add: agree_on_def sitting_landmarks_def point_at_landmark)

lemma sitting_landmarks_right_cong:
  assumes "agree_on [RIGHT_EAR, RIGHT_SHOULDER, RIGHT_HIP, RIGHT_KNEE] lms lms'"
    and "facing \<noteq> ''left''"
  shows "sitting_landmarks lms facing = sitting_landmarks lms' facing"
  using assms by (simp add: agree_on_def sitting_landmarks_def point_at_landmark)

lemma squat_landmarks_mirror:
  assumes "mirrored_on [LEFT_HIP, LEFT_KNEE, LEFT_ANKLE, LEFT_FOOT_INDEX, LEFT_SHOULDER] lms lms'"
  shows "squat_landmarks lms ''left'' = squat_landmarks lms' ''right''"
  using assms by (simp add: mirrored_on_def squat_landmarks_def point_at_landmark)

lemma sitting_landmarks_mirror:
  assumes "mirrored_on [LEFT_EAR, LEFT_SHOULDER, LEFT_HIP, LEFT_KNEE] lms lms'"
  shows "sitting_landmarks lms ''left'' = sitting_landmarks lms' ''right''"
  using assms by (simp add: mirrored_on_def sitting_landmarks_def point_at_landmark)

lemma analyze_squat_posture_direction_free:
  "map_sum id direction_free (analyze_squat_posture lms facing)
   = map_sum id (\<lambda>(hip, knee, ankle, toe, shoulder).
       direction_free (squat_rules ''right'' hip knee ankle toe shoulder))
     (squat_landmarks lms facing)"
  by (simp add: analyze_squat_posture_def and_then_def direction_free_squat_rules
      split: sum.splits)

lemma squat_landmarks_full_frame:
  assumes "33 \<le> length lms"
  shows "\<exists>p. squat_landmarks lms facing = Inr p"
  using assms by (simp add: squat_landmarks_def point_at_landmark landmark_at_def and_then_simps)

lemma sitting_landmarks_full_frame:
  assumes "33 \<le> length lms"
  shows "\<exists>p. sitting_landmarks lms facing = Inr p"
  using assms by (simp add: sitting_landmarks_def point_at_landmark landmark_at_def and_then_simps)

lemma f64_eighth: "f64 (1 / 8) = Fin (1 / 8)"
proof -
  have "f64 (1 / 8) = Fin (of_int (2 ^ 52) * pow2 (- 3 - 52))"
    by (rule f64_normal) (simp_all add: pow2_def f64_overflow_def)
  then show ?thesis by (simp add: pow2_def)
qed

lemma f64_twelve_and_half: "f64 (25 / 2) = Fin (25 / 2)"
proof -
  have "f64 (25 / 2) = Fin (of_int (25 * 2 ^ 48) * pow2 (3 - 52))"
    by (rule f64_normal) (simp_all add: pow2_def f64_overflow_def)
  then show ?thesis by (simp add: pow2_def)
qed







lemma point_at_present: "landmark_at lms j = Inr l \<Longrightarrow> point_at lms j = Inr (xy l)"
  by (simp add: point_at_landmark xy_def)

lemma squat_landmarks_left_present:
  assumes "has_landmarks lms [(LEFT_HIP, h), (LEFT_KNEE, k), (LEFT_ANKLE, a),
             (LEFT_FOOT_INDEX, t), (LEFT_SHOULDER, s)]"
  shows "squat_landmarks lms ''left'' = Inr (xy h, xy k, xy a, xy t, xy s)"
  using assms
  by (simp add: has_landmarks_def squat_landmarks_def point_at_present and_then_simps)

lemma squat_landmarks_right_present:
  assumes "has_landmarks lms [(RIGHT_HIP, h), (RIGHT_KNEE, k), (RIGHT_ANKLE, a),
             (RIGHT_FOOT_INDEX, t), (RIGHT_SHOULDER, s)]"
    and "facing \<noteq> ''left''"
  shows "squat_landmarks lms facing = Inr (xy h, xy k, xy a, xy t, xy s)"
  using assms
  by (simp add: has_landmarks_def squat_landmarks_def point_at_present and_then_simps)

lemma sitting_landmarks_left_present:
  assumes "has_landmarks lms [(LEFT_EAR, e), (LEFT_SHOULDER, s), (LEFT_HIP, h), (LEFT_KNEE, k)]"
  shows "sitting_landmarks lms ''left'' = Inr (xy e, xy s, xy h, xy k)"
  using assms
  by (simp add: has_landmarks_def sitting_landmarks_def point_at_present and_then_simps)

lemma sitting_landmarks_right_present:
  assumes "has_landmarks lms [(RIGHT_EAR, e), (RIGHT_SHOULDER, s), (RIGHT_HIP, h),
             (RIGHT_KNEE, k)]"
    and "facing \<noteq> ''left''"
  shows "sitting_landmarks lms facing = Inr (xy e, xy s, xy h, xy k)"
  using assms
  by (simp add: has_landmarks_def sitting_landmarks_def point_at_present and_then_simps)

lemma knee_over_toe_left:
  "(KNEE_OVER_TOE \<in> set (warnings (squat_rules ''left'' hip knee ankle toe shoulder)))
   = (fst knee < fst toe)"
  using squat_messages_distinct by (simp add: squat_rules_warnings)

lemma knee_over_toe_right:
  "(KNEE_OVER_TOE \<in> set (warnings (squat_rules ''right'' hip knee ankle toe shoulder)))
   = (fst toe < fst knee)"
  using squat_messages_distinct by (simp add: squat_rules_warnings)

lemma two_sided_left_squat:
  "has_landmarks two_sided_frame
     [(LEFT_HIP, \<lparr>lm_x = 1/2, lm_y = 1/2\<rparr>), (LEFT_KNEE, \<lparr>lm_x = 1/2, lm_y = 13/20\<rparr>),
      (LEFT_ANKLE, \<lparr>lm_x = 1/2, lm_y = 17/20\<rparr>),
      (LEFT_FOOT_INDEX, \<lparr>lm_x = 9/20, lm_y = 17/20\<rparr>),
      (LEFT_SHOULDER, \<lparr>lm_x = 1/2, lm_y = 3/10\<rparr>)]"
  by (simp add: has_landmarks_def frame_defs)

lemma two_sided_right_squat:
  "has_landmarks two_sided_frame
     [(RIGHT_HIP, \<lparr>lm_x = 1/2, lm_y = 1/2\<rparr>), (RIGHT_KNEE, \<lparr>lm_x = 7/10, lm_y = 1/2\<rparr>),
      (RIGHT_ANKLE, \<lparr>lm_x = 7/10, lm_y = 7/10\<rparr>),
      (RIGHT_FOOT_INDEX, \<lparr>lm_x = 4/5, lm_y = 7/10\<rparr>),
      (RIGHT_SHOULDER, \<lparr>lm_x = 7/10, lm_y = 3/10\<rparr>)]"
  by (simp add: has_landmarks_def frame_defs)

lemma two_sided_left_sitting:
  "has_landmarks two_sided_frame
     [(LEFT_EAR, \<lparr>lm_x = 1/2, lm_y = 1/5\<rparr>), (LEFT_SHOULDER, \<lparr>lm_x = 1/2, lm_y = 3/10\<rparr>),
      (LEFT_HIP, \<lparr>lm_x = 1/2, lm_y = 1/2\<rparr>), (LEFT_KNEE, \<lparr>lm_x = 1/2, lm_y = 13/20\<rparr>)]"
  by (simp add: has_landmarks_def frame_defs)

lemma two_sided_right_sitting:
  "has_landmarks two_sided_frame
     [(RIGHT_EAR, \<lparr>lm_x = 33/40, lm_y = 1/5\<rparr>), (RIGHT_SHOULDER, \<lparr>lm_x = 7/10, lm_y = 3/10\<rparr>),
      (RIGHT_HIP, \<lparr>lm_x = 1/2, lm_y = 1/2\<rparr>), (RIGHT_KNEE, \<lparr>lm_x = 7/10, lm_y = 1/2\<rparr>)]"
  by (simp add: has_landmarks_def frame_defs)

lemma straight_leg_warnings:
  "warnings (squat_rules ''left'' (1/2, 1/2) (1/2, 13/20) (1/2, 17/20) (9/20, 17/20) (1/2, 3/10))
   = [SQUAT_BACK, SQUAT_DEPTH]"
  by (simp add: squat_rules_warnings straight_knee straight_back)

lemma good_squat_warnings:
  "facing \<noteq> ''left'' \<Longrightarrow>
   warnings (squat_rules facing (1/2, 1/2) (7/10, 1/2) (7/10, 7/10) (4/5, 7/10) (7/10, 3/10))
   = []"
  by (simp add: squat_rules_warnings right_angle_knee half_right_angle_back)

lemma upright_sitting_warnings:
  "warnings (sitting_rules (1/2, 1/5) (1/2, 3/10) (1/2, 1/2) (1/2, 13/20)) = [SITTING_BACK]"
  by (simp add: sitting_rules_warnings straight_back f64_zero)

lemma leaning_sitting_warnings:
  "warnings (sitting_rules (33/40, 1/5) (7/10, 3/10) (1/2, 1/2) (7/10, 1/2))
   = [HEAD_POSTURE, SITTING_BACK]"
  using f64_eighth f64_twelve_and_half
  by (simp add: sitting_rules_warnings half_right_angle_back)

subsection \<open>The angle at a vertex\<close>

text \<open>
  Claim C6, for the triples on which it holds. For points \<open>a\<close>, \<open>b\<close> and \<open>c\<close> such
  that the product of the lengths of \<open>a - b\<close> and \<open>c - b\<close>, as computed in binary64,
  is a finite number other than zero: the quotient of the dot product by that product is not \<^verbatim>\<open>nan\<close>, it is
  clamped to a number within \<open>[-1, 1]\<close>, and the angle returned is the inverse cosine of
  the clamped number in degrees, which lies between 0 and 180 degrees, bounds included.
\<close>

theorem calculate_angle_f64_range:
  assumes "f64_mul (np_linalg_norm_f64 (np_sub_f64 a b)) (np_linalg_norm_f64 (np_sub_f64 c b))
           = Fin d"
    and "d \<noteq> 0"
  shows "let cos_theta = f64_div (np_dot_f64 (np_sub_f64 a b) (np_sub_f64 c b)) (Fin d);
             clamped = np_clip cos_theta (- 1) 1;
             result = calculate_angle_f64 a b c
         in cos_theta \<noteq> NaN
            \<and> (\<exists>t. clamped = Fin t \<and> - 1 \<le> t \<and> t \<le> 1)
            \<and> result = np_degrees (np_arccos clamped)
            \<and> np_le (Fin 0) result \<and> np_le result (Fin 180)"
proof -
  let ?q = "f64_div (np_dot_f64 (np_sub_f64 a b) (np_sub_f64 c b)) (Fin d)"
  from assms(1) obtain m n where
    mn: "np_linalg_norm_f64 (np_sub_f64 a b) = Fin m" "np_linalg_norm_f64 (np_sub_f64 c b) = Fin n"
    by (rule f64_mul_FinD)
  have q: "?q \<noteq> NaN"
    by (rule f64_div_not_NaN [OF np_dot_f64_not_NaN [OF mn] assms(2)])
  then obtain t where t: "np_clip ?q (- 1) 1 = Fin t" "- 1 \<le> t" "t \<le> 1"
    by (rule np_clip_unit)
  have r: "calculate_angle_f64 a b c = np_degrees (np_arccos (Fin t))"
    by (simp add: calculate_angle_f64_def Let_def assms(1) t(1))
  from np_degrees_arccos_range [OF t(2,3)] t q r show ?thesis
    by (simp add: Let_def)
qed

text \<open>The hypothesis at the point \<open>a = c = (0.25, 0.375)\<close> with the vertex at the origin.
  The computed quotient is \<open>1 + 2^-52\<close>: the clamp is what keeps it within the domain of
  the inverse cosine.\<close>

theorem calculate_angle_f64_range_witness:
  "f64_mul (np_linalg_norm_f64 (np_sub_f64 (1/4, 3/8) (0, 0)))
           (np_linalg_norm_f64 (np_sub_f64 (1/4, 3/8) (0, 0)))
     = Fin (7318349394477055 / 2 ^ 55)
   \<and> 7318349394477055 / 2 ^ 55 \<noteq> (0::real)
   \<and> f64_div (np_dot_f64 (np_sub_f64 (1/4, 3/8) (0, 0)) (np_sub_f64 (1/4, 3/8) (0, 0)))
              (Fin (7318349394477055 / 2 ^ 55))
     = Fin (1 + 1 / 2 ^ 52)
   \<and> calculate_angle_f64 (1/4, 3/8) (0, 0) (1/4, 3/8) = Fin 0
   \<and> np_le (Fin 0) (calculate_angle_f64 (1/4, 3/8) (0, 0) (1/4, 3/8))
   \<and> np_le (calculate_angle_f64 (1/4, 3/8) (0, 0) (1/4, 3/8)) (Fin 180)"
proof -
  have nz: "7318349394477055 / 2 ^ 55 \<noteq> (0::real)" by simp
  from calculate_angle_f64_range [OF rounded_norm_product nz]
    rounded_norm_product rounded_quotient
  show ?thesis
    by (auto simp add: Let_def)
qed

text \<open>Claim C6 does not hold of every triple whose two vectors have a length other
  than zero: the vectors \<open>(2^-600, 0)\<close> and \<open>(0, 2^-600)\<close> have one, but their squares underflow to zero in
  binary64, the computed lengths are zero, the quotient is \<open>0 / 0\<close> and the value
  returned is \<^verbatim>\<open>nan\<close>, which is not within 0 to 180.\<close>

theorem calculate_angle_range_counterexample:
  "sqrt ((1 / 2 ^ 600 - 0) * (1 / 2 ^ 600 - 0) + (0 - 0) * (0 - 0)) \<noteq> (0::real)
   \<and> sqrt ((0 - 0) * (0 - 0) + (1 / 2 ^ 600 - 0) * (1 / 2 ^ 600 - 0)) \<noteq> (0::real)
   \<and> calculate_angle_f64 (1 / 2 ^ 600, 0) (0, 0) (0, 1 / 2 ^ 600) = NaN
   \<and> \<not> (np_le (Fin 0) (calculate_angle_f64 (1 / 2 ^ 600, 0) (0, 0) (0, 1 / 2 ^ 600))
         \<and> np_le (calculate_angle_f64 (1 / 2 ^ 600, 0) (0, 0) (0, 1 / 2 ^ 600)) (Fin 180))"
  using underflow_value by simp

text \<open>
  Claim C7. The angle at the vertex \<open>b\<close> does not depend on the order of the two other
  points: \<open>calculate_angle a b c\<close> and \<open>calculate_angle c b a\<close> are the same value
  (for a degenerate triple both are \<open>NaN\<close>).
\<close>

theorem calculate_angle_symmetric: "calculate_angle a b c = calculate_angle c b a"
  by (simp add: calculate_angle_def Let_def np_dot_commute [of "np_sub a b"] mult.commute)

theorem calculate_angle_symmetric_witness:
  "calculate_angle (1/2, 1/2) (7/10, 1/2) (7/10, 7/10)
   = calculate_angle (7/10, 7/10) (7/10, 1/2) (1/2, 1/2)"
  by (rule calculate_angle_symmetric)

text \<open>
  Claim C9. On a degenerate triple, where \<open>a = b\<close> or \<open>c = b\<close>, the quotient is
  \<open>0 / 0\<close>; \<open>calculate_angle\<close> raises nothing and returns a value, which is \<open>NaN\<close>.
\<close>

theorem calculate_angle_degenerate:
  "a = b \<or> c = b \<Longrightarrow> calculate_angle a b c = NaN"
  by (auto simp add: calculate_angle_def Let_def np_divide_def np_linalg_norm_zero
      np_dot_zero_left np_dot_zero_right)

theorem calculate_angle_degenerate_witness:
  "calculate_angle (1/2, 1/2) (1/2, 1/2) (1/2, 13/20) = NaN
   \<and> calculate_angle (1/2, 3/10) (1/2, 1/2) (1/2, 1/2) = NaN"
  using calculate_angle_degenerate [of "(1/2, 1/2)" "(1/2, 1/2)" "(1/2, 13/20)"]
    calculate_angle_degenerate [of "(1/2, 3/10)" "(1/2, 1/2)" "(1/2, 1/2)"]
  by simp

subsection \<open>The facing classifier\<close>

text \<open>
  Claim C4. On a landmark set that has the nose and the two shoulders,
  \<open>detect_facing_direction\<close> raises nothing and returns \<open>right\<close> or \<open>left\<close>: \<open>right\<close>
  exactly when the x-coordinate of the nose is greater than that of the right shoulder
  or greater than that of the left shoulder, \<open>left\<close> exactly when it is not.
\<close>

theorem detect_facing_direction_total:
  assumes "landmark_at lms NOSE = Inr n"
    and "landmark_at lms LEFT_SHOULDER = Inr l"
    and "landmark_at lms RIGHT_SHOULDER = Inr r"
  shows "(detect_facing_direction lms = Inr ''right'' \<or> detect_facing_direction lms = Inr ''left'')
    \<and> (detect_facing_direction lms = Inr ''right'') = (lm_x r < lm_x n \<or> lm_x l < lm_x n)
    \<and> (detect_facing_direction lms = Inr ''left'') = (\<not> (lm_x r < lm_x n \<or> lm_x l < lm_x n))"
  using assms by (simp add: detect_facing_direction_def and_then_simps Let_def)

theorem detect_facing_direction_total_witness:
  "landmark_at seated_frame NOSE = Inr \<lparr> lm_x = 7/20, lm_y = 1/5 \<rparr>
   \<and> landmark_at seated_frame LEFT_SHOULDER = Inr \<lparr> lm_x = 2/5, lm_y = 7/20 \<rparr>
   \<and> landmark_at seated_frame RIGHT_SHOULDER = Inr \<lparr> lm_x = 9/20, lm_y = 7/20 \<rparr>
   \<and> detect_facing_direction seated_frame = Inr ''left''
   \<and> detect_facing_direction seated_frame \<noteq> Inr ''right''"
proof -
  have n: "landmark_at seated_frame NOSE = Inr \<lparr> lm_x = 7/20, lm_y = 1/5 \<rparr>"
    by (simp add: frame_defs)
  have l: "landmark_at seated_frame LEFT_SHOULDER = Inr \<lparr> lm_x = 2/5, lm_y = 7/20 \<rparr>"
    by (simp add: frame_defs)
  have r: "landmark_at seated_frame RIGHT_SHOULDER = Inr \<lparr> lm_x = 9/20, lm_y = 7/20 \<rparr>"
    by (simp add: frame_defs)
  from detect_facing_direction_total [OF n l r] n l r show ?thesis by simp
qed

subsection \<open>The evaluators\<close>





text \<open>
  Claim C3. In every result returned by the squat evaluator or by the sitting evaluator,
  the list of warnings is empty if and only if \<open>isGoodPosture\<close> is true.
\<close>

theorem warnings_empty_iff_good:
  assumes "analyze_squat_posture lms facing = Inr r \<or> analyze_sitting_posture lms facing = Inr r"
  shows "(warnings r = []) = isGoodPosture r"
  using assms
proof
  assume "analyze_squat_posture lms facing = Inr r"
  then show ?thesis
    by (rule analyze_squat_posture_InrD) (simp only: squat_rules_invariant)
next
  assume "analyze_sitting_posture lms facing = Inr r"
  then show ?thesis
    by (rule analyze_sitting_posture_InrD) (simp only: sitting_rules_invariant)
qed

theorem warnings_empty_iff_good_witness:
  "analyze_squat_posture good_squat_frame ''right''
     = Inr (squat_rules ''right'' (1/2, 1/2) (7/10, 1/2) (7/10, 7/10) (4/5, 7/10) (7/10, 3/10))
   \<and> warnings (squat_rules ''right'' (1/2, 1/2) (7/10, 1/2) (7/10, 7/10) (4/5, 7/10) (7/10, 3/10))
       = []
   \<and> isGoodPosture
       (squat_rules ''right'' (1/2, 1/2) (7/10, 1/2) (7/10, 7/10) (4/5, 7/10) (7/10, 3/10))
   \<and> analyze_sitting_posture seated_frame ''left''
     = Inr (sitting_rules (2/5, 1/5) (2/5, 7/20) (2/5, 3/5) (2/5, 9/10))
   \<and> warnings (sitting_rules (2/5, 1/5) (2/5, 7/20) (2/5, 3/5) (2/5, 9/10)) = [SITTING_BACK]
   \<and> \<not> isGoodPosture (sitting_rules (2/5, 1/5) (2/5, 7/20) (2/5, 3/5) (2/5, 9/10))"
proof -
  let ?r = "squat_rules ''right'' (1/2, 1/2) (7/10, 1/2) (7/10, 7/10) (4/5, 7/10) (7/10, 3/10)"
  let ?s = "sitting_rules (2/5, 1/5) (2/5, 7/20) (2/5, 3/5) (2/5, 9/10)"
  have a: "analyze_squat_posture good_squat_frame ''right'' = Inr ?r"
    by (rule analyze_squat_posture_selected [OF good_squat_selected])
  have b: "analyze_sitting_posture seated_frame ''left'' = Inr ?s"
    by (rule analyze_sitting_posture_selected [OF seated_selected])
  have wr: "warnings ?r = []"
    by (simp add: squat_rules_warnings right_angle_knee half_right_angle_back)
  have ws: "warnings ?s = [SITTING_BACK]"
    by (simp add: sitting_rules_warnings straight_seated_back f64_zero)
  from warnings_empty_iff_good [of good_squat_frame "''right''" ?r] a wr
  have gr: "isGoodPosture ?r" by simp
  from warnings_empty_iff_good [of seated_frame "''left''" ?s] b ws
  have gs: "\<not> isGoodPosture ?s" by simp
  from a b wr ws gr gs show ?thesis by simp
qed

text \<open>
  Claim C8. On a landmark set whose left hip, knee, ankle, toe and shoulder are
  \<open>(0.5, 0.5)\<close>, \<open>(0.5, 0.65)\<close>, \<open>(0.5, 0.85)\<close>, \<open>(0.45, 0.85)\<close> and \<open>(0.5, 0.3)\<close>,
  with facing \<open>left\<close>: the knee angle is 180 degrees, which is not within 80 to 120, and
  the squat evaluator returns a result that reports this knee angle, has
  \<open>isGoodPosture = False\<close> and has the squat-depth warning among its warnings.
\<close>

theorem straight_leg_squat:
  assumes "landmark_at lms LEFT_HIP = Inr \<lparr> lm_x = 1/2, lm_y = 1/2 \<rparr>"
    and "landmark_at lms LEFT_KNEE = Inr \<lparr> lm_x = 1/2, lm_y = 13/20 \<rparr>"
    and "landmark_at lms LEFT_ANKLE = Inr \<lparr> lm_x = 1/2, lm_y = 17/20 \<rparr>"
    and "landmark_at lms LEFT_FOOT_INDEX = Inr \<lparr> lm_x = 9/20, lm_y = 17/20 \<rparr>"
    and "landmark_at lms LEFT_SHOULDER = Inr \<lparr> lm_x = 1/2, lm_y = 3/10 \<rparr>"
  shows "calculate_angle (1/2, 1/2) (1/2, 13/20) (1/2, 17/20) = Fin 180
    \<and> \<not> (np_le (Fin 80) (Fin 180) \<and> np_le (Fin 180) (Fin 120))
    \<and> (\<exists>r. analyze_squat_posture lms ''left'' = Inr r
          \<and> (''knee'', Fin 180) \<in> set (angles r)
          \<and> isGoodPosture r = False
          \<and> SQUAT_DEPTH \<in> set (warnings r))
    \<and> prefix ''Squat depth'' SQUAT_DEPTH"
proof -
  have sel: "squat_landmarks lms ''left''
      = Inr ((1/2, 1/2), (1/2, 13/20), (1/2, 17/20), (9/20, 17/20), (1/2, 3/10))"
    using assms by (simp add: select_defs)
  have p: "prefix ''Squat depth'' SQUAT_DEPTH"
    by (simp add: SQUAT_DEPTH_def)
  show ?thesis
    unfolding analyze_squat_posture_selected [OF sel]
    using p
    by (simp add: squat_rules_warnings squat_rules_isGoodPosture squat_rules_angles
        straight_knee straight_back rint_def)
qed

theorem straight_leg_squat_witness:
  "landmark_at straight_leg_frame LEFT_HIP = Inr \<lparr> lm_x = 1/2, lm_y = 1/2 \<rparr>
   \<and> landmark_at straight_leg_frame LEFT_KNEE = Inr \<lparr> lm_x = 1/2, lm_y = 13/20 \<rparr>
   \<and> landmark_at straight_leg_frame LEFT_ANKLE = Inr \<lparr> lm_x = 1/2, lm_y = 17/20 \<rparr>
   \<and> landmark_at straight_leg_frame LEFT_FOOT_INDEX = Inr \<lparr> lm_x = 9/20, lm_y = 17/20 \<rparr>
   \<and> landmark_at straight_leg_frame LEFT_SHOULDER = Inr \<lparr> lm_x = 1/2, lm_y = 3/10 \<rparr>
   \<and> (\<exists>r. analyze_squat_posture straight_leg_frame ''left'' = Inr r
          \<and> \<not> isGoodPosture r \<and> SQUAT_DEPTH \<in> set (warnings r))"
proof -
  have h: "landmark_at straight_leg_frame LEFT_HIP = Inr \<lparr> lm_x = 1/2, lm_y = 1/2 \<rparr>"
    by (simp add: frame_defs)
  have k: "landmark_at straight_leg_frame LEFT_KNEE = Inr \<lparr> lm_x = 1/2, lm_y = 13/20 \<rparr>"
    by (simp add: frame_defs)
  have a: "landmark_at straight_leg_frame LEFT_ANKLE = Inr \<lparr> lm_x = 1/2, lm_y = 17/20 \<rparr>"
    by (simp add: frame_defs)
  have t: "landmark_at straight_leg_frame LEFT_FOOT_INDEX = Inr \<lparr> lm_x = 9/20, lm_y = 17/20 \<rparr>"
    by (simp add: frame_defs)
  have s: "landmark_at straight_leg_frame LEFT_SHOULDER = Inr \<lparr> lm_x = 1/2, lm_y = 3/10 \<rparr>"
    by (simp add: frame_defs)
  from straight_leg_squat [OF h k a t s] h k a t s show ?thesis
    by auto
qed

subsection \<open>Side selection\<close>

text \<open>
  Claim C5. With facing \<open>left\<close> the points of the squat evaluator are those of the left
  hip, knee, ankle, foot index and shoulder, and the points of the sitting evaluator
  those of the left ear, shoulder, hip and knee; with facing \<open>right\<close> they are those of
  the right joints. On both sides the result is that of the same rules applied to the
  selected points; in particular the knee-over-toe warning compares the knee and the foot
  index of the selected side. No other landmark is consulted: two landmark sets that
  agree on the joints of the side get the same outcome; and if the right joints of one
  landmark set are the left joints of another, the sitting evaluator returns for
  \<open>right\<close> on the first what it returns for \<open>left\<close> on the second, and the squat
  evaluator returns the same angles and the same back and depth warnings.
\<close>

theorem side_selection:
  "(has_landmarks lms [(LEFT_HIP, hip_l), (LEFT_KNEE, knee_l), (LEFT_ANKLE, ankle_l),
       (LEFT_FOOT_INDEX, toe_l), (LEFT_SHOULDER, shoulder_l)]
      \<longrightarrow> squat_landmarks lms ''left'' = Inr (xy hip_l, xy knee_l, xy ankle_l, xy toe_l, xy shoulder_l)
        \<and> analyze_squat_posture lms ''left''
            = Inr (squat_rules ''left'' (xy hip_l) (xy knee_l) (xy ankle_l) (xy toe_l) (xy shoulder_l))
        \<and> (KNEE_OVER_TOE
              \<in> set (warnings (squat_rules ''left'' (xy hip_l) (xy knee_l) (xy ankle_l) (xy toe_l) (xy shoulder_l))))
            = (lm_x knee_l < lm_x toe_l))
   \<and> (has_landmarks lms [(RIGHT_HIP, hip_r), (RIGHT_KNEE, knee_r), (RIGHT_ANKLE, ankle_r),
       (RIGHT_FOOT_INDEX, toe_r), (RIGHT_SHOULDER, shoulder_r)]
      \<longrightarrow> squat_landmarks lms ''right'' = Inr (xy hip_r, xy knee_r, xy ankle_r, xy toe_r, xy shoulder_r)
        \<and> analyze_squat_posture lms ''right''
            = Inr (squat_rules ''right'' (xy hip_r) (xy knee_r) (xy ankle_r) (xy toe_r) (xy shoulder_r))
        \<and> (KNEE_OVER_TOE
              \<in> set (warnings (squat_rules ''right'' (xy hip_r) (xy knee_r) (xy ankle_r) (xy toe_r) (xy shoulder_r))))
            = (lm_x knee_r > lm_x toe_r))
   \<and> (has_landmarks lms [(LEFT_EAR, ear_l), (LEFT_SHOULDER, shoulder_l), (LEFT_HIP, hip_l), (LEFT_KNEE, knee_l)]
      \<longrightarrow> sitting_landmarks lms ''left'' = Inr (xy ear_l, xy shoulder_l, xy hip_l, xy knee_l)
        \<and> analyze_sitting_posture lms ''left''
            = Inr (sitting_rules (xy ear_l) (xy shoulder_l) (xy hip_l) (xy knee_l)))
   \<and> (has_landmarks lms [(RIGHT_EAR, ear_r), (RIGHT_SHOULDER, shoulder_r), (RIGHT_HIP, hip_r),
       (RIGHT_KNEE, knee_r)]
      \<longrightarrow> sitting_landmarks lms ''right'' = Inr (xy ear_r, xy shoulder_r, xy hip_r, xy knee_r)
        \<and> analyze_sitting_posture lms ''right''
            = Inr (sitting_rules (xy ear_r) (xy shoulder_r) (xy hip_r) (xy knee_r)))
   \<and> (agree_on [LEFT_HIP, LEFT_KNEE, LEFT_ANKLE, LEFT_FOOT_INDEX, LEFT_SHOULDER] lms lms'
      \<longrightarrow> analyze_squat_posture lms ''left'' = analyze_squat_posture lms' ''left'')
   \<and> (agree_on [RIGHT_HIP, RIGHT_KNEE, RIGHT_ANKLE, RIGHT_FOOT_INDEX, RIGHT_SHOULDER] lms lms'
      \<longrightarrow> analyze_squat_posture lms ''right'' = analyze_squat_posture lms' ''right'')
   \<and> (agree_on [LEFT_EAR, LEFT_SHOULDER, LEFT_HIP, LEFT_KNEE] lms lms'
      \<longrightarrow> analyze_sitting_posture lms ''left'' = analyze_sitting_posture lms' ''left'')
   \<and> (agree_on [RIGHT_EAR, RIGHT_SHOULDER, RIGHT_HIP, RIGHT_KNEE] lms lms'
      \<longrightarrow> analyze_sitting_posture lms ''right'' = analyze_sitting_posture lms' ''right'')
   \<and> (mirrored_on [LEFT_EAR, LEFT_SHOULDER, LEFT_HIP, LEFT_KNEE] lms lms'
      \<longrightarrow> analyze_sitting_posture lms ''left'' = analyze_sitting_posture lms' ''right'')
   \<and> (mirrored_on [LEFT_HIP, LEFT_KNEE, LEFT_ANKLE, LEFT_FOOT_INDEX, LEFT_SHOULDER] lms lms'
      \<longrightarrow> map_sum id direction_free (analyze_squat_posture lms ''left'')
          = map_sum id direction_free (analyze_squat_posture lms' ''right''))"
proof (intro conjI impI)
  assume h: "has_landmarks lms [(LEFT_HIP, hip_l), (LEFT_KNEE, knee_l), (LEFT_ANKLE, ankle_l),
       (LEFT_FOOT_INDEX, toe_l), (LEFT_SHOULDER, shoulder_l)]"
  show sel: "squat_landmarks lms ''left'' = Inr (xy hip_l, xy knee_l, xy ankle_l, xy toe_l, xy shoulder_l)"
    by (rule squat_landmarks_left_present [OF h])
  show "analyze_squat_posture lms ''left''
      = Inr (squat_rules ''left'' (xy hip_l) (xy knee_l) (xy ankle_l) (xy toe_l) (xy shoulder_l))"
    by (rule analyze_squat_posture_selected [OF sel])
  show "(KNEE_OVER_TOE
              \<in> set (warnings (squat_rules ''left'' (xy hip_l) (xy knee_l) (xy ankle_l) (xy toe_l) (xy shoulder_l))))
            = (lm_x knee_l < lm_x toe_l)"
    by (simp add: knee_over_toe_left xy_def)
next
  assume h: "has_landmarks lms [(RIGHT_HIP, hip_r), (RIGHT_KNEE, knee_r), (RIGHT_ANKLE, ankle_r),
       (RIGHT_FOOT_INDEX, toe_r), (RIGHT_SHOULDER, shoulder_r)]"
  show sel: "squat_landmarks lms ''right'' = Inr (xy hip_r, xy knee_r, xy ankle_r, xy toe_r, xy shoulder_r)"
    by (rule squat_landmarks_right_present [OF h]) simp
  show "analyze_squat_posture lms ''right''
      = Inr (squat_rules ''right'' (xy hip_r) (xy knee_r) (xy ankle_r) (xy toe_r) (xy shoulder_r))"
    by (rule analyze_squat_posture_selected [OF sel])
  show "(KNEE_OVER_TOE
              \<in> set (warnings (squat_rules ''right'' (xy hip_r) (xy knee_r) (xy ankle_r) (xy toe_r) (xy shoulder_r))))
            = (lm_x knee_r > lm_x toe_r)"
    by (simp add: knee_over_toe_right xy_def)
next
  assume h: "has_landmarks lms [(LEFT_EAR, ear_l), (LEFT_SHOULDER, shoulder_l), (LEFT_HIP, hip_l),
       (LEFT_KNEE, knee_l)]"
  show sel: "sitting_landmarks lms ''left'' = Inr (xy ear_l, xy shoulder_l, xy hip_l, xy knee_l)"
    by (rule sitting_landmarks_left_present [OF h])
  show "analyze_sitting_posture lms ''left''
      = Inr (sitting_rules (xy ear_l) (xy shoulder_l) (xy hip_l) (xy knee_l))"
    by (rule analyze_sitting_posture_selected [OF sel])
next
  assume h: "has_landmarks lms [(RIGHT_EAR, ear_r), (RIGHT_SHOULDER, shoulder_r), (RIGHT_HIP, hip_r),
       (RIGHT_KNEE, knee_r)]"
  show sel: "sitting_landmarks lms ''right'' = Inr (xy ear_r, xy shoulder_r, xy hip_r, xy knee_r)"
    by (rule sitting_landmarks_right_present [OF h]) simp
  show "analyze_sitting_posture lms ''right''
      = Inr (sitting_rules (xy ear_r) (xy shoulder_r) (xy hip_r) (xy knee_r))"
    by (rule analyze_sitting_posture_selected [OF sel])
next
  assume "agree_on [LEFT_HIP, LEFT_KNEE, LEFT_ANKLE, LEFT_FOOT_INDEX, LEFT_SHOULDER] lms lms'"
  then show "analyze_squat_posture lms ''left'' = analyze_squat_posture lms' ''left''"
    by (simp add: analyze_squat_posture_def squat_landmarks_left_cong)
next
  assume "agree_on [RIGHT_HIP, RIGHT_KNEE, RIGHT_ANKLE, RIGHT_FOOT_INDEX, RIGHT_SHOULDER] lms lms'"
  then show "analyze_squat_posture lms ''right'' = analyze_squat_posture lms' ''right''"
    by (simp add: analyze_squat_posture_def squat_landmarks_right_cong)
next
  assume "agree_on [LEFT_EAR, LEFT_SHOULDER, LEFT_HIP, LEFT_KNEE] lms lms'"
  then show "analyze_sitting_posture lms ''left'' = analyze_sitting_posture lms' ''left''"
    by (simp add: analyze_sitting_posture_def sitting_landmarks_left_cong)
next
  assume "agree_on [RIGHT_EAR, RIGHT_SHOULDER, RIGHT_HIP, RIGHT_KNEE] lms lms'"
  then show "analyze_sitting_posture lms ''right'' = analyze_sitting_posture lms' ''right''"
    by (simp add: analyze_sitting_posture_def sitting_landmarks_right_cong)
next
  assume "mirrored_on [LEFT_EAR, LEFT_SHOULDER, LEFT_HIP, LEFT_KNEE] lms lms'"
  then show "analyze_sitting_posture lms ''left'' = analyze_sitting_posture lms' ''right''"
    by (simp add: analyze_sitting_posture_def sitting_landmarks_mirror)
next
  assume "mirrored_on [LEFT_HIP, LEFT_KNEE, LEFT_ANKLE, LEFT_FOOT_INDEX, LEFT_SHOULDER] lms lms'"
  then show "map_sum id direction_free (analyze_squat_posture lms ''left'')
          = map_sum id direction_free (analyze_squat_posture lms' ''right'')"
    by (simp add: analyze_squat_posture_direction_free squat_landmarks_mirror)
qed

theorem side_selection_witness:
  "has_landmarks two_sided_frame
     [(LEFT_HIP, \<lparr>lm_x = 1/2, lm_y = 1/2\<rparr>), (LEFT_KNEE, \<lparr>lm_x = 1/2, lm_y = 13/20\<rparr>),
      (LEFT_ANKLE, \<lparr>lm_x = 1/2, lm_y = 17/20\<rparr>),
      (LEFT_FOOT_INDEX, \<lparr>lm_x = 9/20, lm_y = 17/20\<rparr>),
      (LEFT_SHOULDER, \<lparr>lm_x = 1/2, lm_y = 3/10\<rparr>)]
   \<and> has_landmarks two_sided_frame
     [(RIGHT_HIP, \<lparr>lm_x = 1/2, lm_y = 1/2\<rparr>), (RIGHT_KNEE, \<lparr>lm_x = 7/10, lm_y = 1/2\<rparr>),
      (RIGHT_ANKLE, \<lparr>lm_x = 7/10, lm_y = 7/10\<rparr>),
      (RIGHT_FOOT_INDEX, \<lparr>lm_x = 4/5, lm_y = 7/10\<rparr>),
      (RIGHT_SHOULDER, \<lparr>lm_x = 7/10, lm_y = 3/10\<rparr>)]
   \<and> has_landmarks two_sided_frame
     [(LEFT_EAR, \<lparr>lm_x = 1/2, lm_y = 1/5\<rparr>), (LEFT_SHOULDER, \<lparr>lm_x = 1/2, lm_y = 3/10\<rparr>),
      (LEFT_HIP, \<lparr>lm_x = 1/2, lm_y = 1/2\<rparr>), (LEFT_KNEE, \<lparr>lm_x = 1/2, lm_y = 13/20\<rparr>)]
   \<and> has_landmarks two_sided_frame
     [(RIGHT_EAR, \<lparr>lm_x = 33/40, lm_y = 1/5\<rparr>), (RIGHT_SHOULDER, \<lparr>lm_x = 7/10, lm_y = 3/10\<rparr>),
      (RIGHT_HIP, \<lparr>lm_x = 1/2, lm_y = 1/2\<rparr>), (RIGHT_KNEE, \<lparr>lm_x = 7/10, lm_y = 1/2\<rparr>)]
   \<and> squat_landmarks two_sided_frame ''left''
       = Inr ((1/2, 1/2), (1/2, 13/20), (1/2, 17/20), (9/20, 17/20), (1/2, 3/10))
   \<and> squat_landmarks two_sided_frame ''right''
       = Inr ((1/2, 1/2), (7/10, 1/2), (7/10, 7/10), (4/5, 7/10), (7/10, 3/10))
   \<and> sitting_landmarks two_sided_frame ''left''
       = Inr ((1/2, 1/5), (1/2, 3/10), (1/2, 1/2), (1/2, 13/20))
   \<and> sitting_landmarks two_sided_frame ''right''
       = Inr ((33/40, 1/5), (7/10, 3/10), (1/2, 1/2), (7/10, 1/2))
   \<and> (\<exists>r. analyze_squat_posture two_sided_frame ''left'' = Inr r
          \<and> warnings r = [SQUAT_BACK, SQUAT_DEPTH])
   \<and> (\<exists>r. analyze_squat_posture two_sided_frame ''right'' = Inr r \<and> warnings r = [])
   \<and> (\<exists>r. analyze_sitting_posture two_sided_frame ''left'' = Inr r
          \<and> warnings r = [SITTING_BACK])
   \<and> (\<exists>r. analyze_sitting_posture two_sided_frame ''right'' = Inr r
          \<and> warnings r = [HEAD_POSTURE, SITTING_BACK])
   \<and> agree_on [LEFT_HIP, LEFT_KNEE, LEFT_ANKLE, LEFT_FOOT_INDEX, LEFT_SHOULDER]
       two_sided_frame (place NOSE (3/10) (1/5) two_sided_frame)
   \<and> agree_on [RIGHT_HIP, RIGHT_KNEE, RIGHT_ANKLE, RIGHT_FOOT_INDEX, RIGHT_SHOULDER]
       two_sided_frame (place NOSE (3/10) (1/5) two_sided_frame)
   \<and> agree_on [LEFT_EAR, LEFT_SHOULDER, LEFT_HIP, LEFT_KNEE]
       two_sided_frame (place NOSE (3/10) (1/5) two_sided_frame)
   \<and> agree_on [RIGHT_EAR, RIGHT_SHOULDER, RIGHT_HIP, RIGHT_KNEE]
       two_sided_frame (place NOSE (3/10) (1/5) two_sided_frame)
   \<and> landmark_at two_sided_frame NOSE
       \<noteq> landmark_at (place NOSE (3/10) (1/5) two_sided_frame) NOSE
   \<and> analyze_squat_posture two_sided_frame ''left''
       = analyze_squat_posture (place NOSE (3/10) (1/5) two_sided_frame) ''left''
   \<and> analyze_squat_posture two_sided_frame ''right''
       = analyze_squat_posture (place NOSE (3/10) (1/5) two_sided_frame) ''right''
   \<and> analyze_sitting_posture two_sided_frame ''left''
       = analyze_sitting_posture (place NOSE (3/10) (1/5) two_sided_frame) ''left''
   \<and> analyze_sitting_posture two_sided_frame ''right''
       = analyze_sitting_posture (place NOSE (3/10) (1/5) two_sided_frame) ''right''
   \<and> mirrored_on [LEFT_EAR, LEFT_SHOULDER, LEFT_HIP, LEFT_KNEE]
       straight_leg_frame straight_leg_mirror
   \<and> mirrored_on [LEFT_HIP, LEFT_KNEE, LEFT_ANKLE, LEFT_FOOT_INDEX, LEFT_SHOULDER]
       straight_leg_frame straight_leg_mirror
   \<and> analyze_sitting_posture straight_leg_frame ''left''
       = analyze_sitting_posture straight_leg_mirror ''right''
   \<and> map_sum id direction_free (analyze_squat_posture straight_leg_frame ''left'')
       = map_sum id direction_free (analyze_squat_posture straight_leg_mirror ''right'')"
proof -
  let ?A = "two_sided_frame" and ?B = "place NOSE (3/10) (1/5) two_sided_frame"
  note th = side_selection [where lms = ?A and lms' = ?B
      and hip_l = "\<lparr>lm_x = 1/2, lm_y = 1/2\<rparr>" and knee_l = "\<lparr>lm_x = 1/2, lm_y = 13/20\<rparr>"
      and ankle_l = "\<lparr>lm_x = 1/2, lm_y = 17/20\<rparr>" and toe_l = "\<lparr>lm_x = 9/20, lm_y = 17/20\<rparr>"
      and shoulder_l = "\<lparr>lm_x = 1/2, lm_y = 3/10\<rparr>" and ear_l = "\<lparr>lm_x = 1/2, lm_y = 1/5\<rparr>"
      and hip_r = "\<lparr>lm_x = 1/2, lm_y = 1/2\<rparr>" and knee_r = "\<lparr>lm_x = 7/10, lm_y = 1/2\<rparr>"
      and ankle_r = "\<lparr>lm_x = 7/10, lm_y = 7/10\<rparr>" and toe_r = "\<lparr>lm_x = 4/5, lm_y = 7/10\<rparr>"
      and shoulder_r = "\<lparr>lm_x = 7/10, lm_y = 3/10\<rparr>" and ear_r = "\<lparr>lm_x = 33/40, lm_y = 1/5\<rparr>"]
  note mi = side_selection [where lms = straight_leg_frame and lms' = straight_leg_mirror]
  have h1: "agree_on [LEFT_HIP, LEFT_KNEE, LEFT_ANKLE, LEFT_FOOT_INDEX, LEFT_SHOULDER] ?A ?B"
    by (simp add: agree_on_def frame_defs)
  have h2: "agree_on [RIGHT_HIP, RIGHT_KNEE, RIGHT_ANKLE, RIGHT_FOOT_INDEX, RIGHT_SHOULDER] ?A ?B"
    by (simp add: agree_on_def frame_defs)
  have h3: "agree_on [LEFT_EAR, LEFT_SHOULDER, LEFT_HIP, LEFT_KNEE] ?A ?B"
    by (simp add: agree_on_def frame_defs)
  have h4: "agree_on [RIGHT_EAR, RIGHT_SHOULDER, RIGHT_HIP, RIGHT_KNEE] ?A ?B"
    by (simp add: agree_on_def frame_defs)
  have d: "landmark_at ?A NOSE \<noteq> landmark_at ?B NOSE"
    by (simp add: frame_defs)
  have m1: "mirrored_on [LEFT_EAR, LEFT_SHOULDER, LEFT_HIP, LEFT_KNEE]
      straight_leg_frame straight_leg_mirror"
    by (simp add: mirrored_on_def frame_defs)
  have m2: "mirrored_on [LEFT_HIP, LEFT_KNEE, LEFT_ANKLE, LEFT_FOOT_INDEX, LEFT_SHOULDER]
      straight_leg_frame straight_leg_mirror"
    by (simp add: mirrored_on_def frame_defs)
  from th two_sided_left_squat
  have s1: "squat_landmarks ?A ''left''
       = Inr ((1/2, 1/2), (1/2, 13/20), (1/2, 17/20), (9/20, 17/20), (1/2, 3/10))"
    and a1: "analyze_squat_posture ?A ''left'' = Inr (squat_rules ''left''
        (1/2, 1/2) (1/2, 13/20) (1/2, 17/20) (9/20, 17/20) (1/2, 3/10))"
    by (simp_all add: xy_def)
  from th two_sided_right_squat
  have s2: "squat_landmarks ?A ''right''
       = Inr ((1/2, 1/2), (7/10, 1/2), (7/10, 7/10), (4/5, 7/10), (7/10, 3/10))"
    and a2: "analyze_squat_posture ?A ''right'' = Inr (squat_rules ''right''
        (1/2, 1/2) (7/10, 1/2) (7/10, 7/10) (4/5, 7/10) (7/10, 3/10))"
    by (simp_all add: xy_def)
  from th two_sided_left_sitting
  have s3: "sitting_landmarks ?A ''left''
       = Inr ((1/2, 1/5), (1/2, 3/10), (1/2, 1/2), (1/2, 13/20))"
    and a3: "analyze_sitting_posture ?A ''left''
       = Inr (sitting_rules (1/2, 1/5) (1/2, 3/10) (1/2, 1/2) (1/2, 13/20))"
    by (simp_all add: xy_def)
  from th two_sided_right_sitting
  have s4: "sitting_landmarks ?A ''right''
       = Inr ((33/40, 1/5), (7/10, 3/10), (1/2, 1/2), (7/10, 1/2))"
    and a4: "analyze_sitting_posture ?A ''right''
       = Inr (sitting_rules (33/40, 1/5) (7/10, 3/10) (1/2, 1/2) (7/10, 1/2))"
    by (simp_all add: xy_def)
  have r1: "\<exists>r. analyze_squat_posture ?A ''left'' = Inr r
          \<and> warnings r = [SQUAT_BACK, SQUAT_DEPTH]"
    using a1 straight_leg_warnings by blast
  have r2: "\<exists>r. analyze_squat_posture ?A ''right'' = Inr r \<and> warnings r = []"
    using a2 good_squat_warnings [of "''right''"] by auto
  have r3: "\<exists>r. analyze_sitting_posture ?A ''left'' = Inr r \<and> warnings r = [SITTING_BACK]"
    using a3 upright_sitting_warnings by blast
  have r4: "\<exists>r. analyze_sitting_posture ?A ''right'' = Inr r
          \<and> warnings r = [HEAD_POSTURE, SITTING_BACK]"
    using a4 leaning_sitting_warnings by blast
  from th h1 have e1: "analyze_squat_posture ?A ''left'' = analyze_squat_posture ?B ''left''"
    by blast
  from th h2 have e2: "analyze_squat_posture ?A ''right'' = analyze_squat_posture ?B ''right''"
    by blast
  from th h3 have e3: "analyze_sitting_posture ?A ''left'' = analyze_sitting_posture ?B ''left''"
    by blast
  from th h4 have e4: "analyze_sitting_posture ?A ''right'' = analyze_sitting_posture ?B ''right''"
    by blast
  from mi m1 have e5: "analyze_sitting_posture straight_leg_frame ''left''
       = analyze_sitting_posture straight_leg_mirror ''right''"
    by blast
  from mi m2 have e6: "map_sum id direction_free (analyze_squat_posture straight_leg_frame ''left'')
       = map_sum id direction_free (analyze_squat_posture straight_leg_mirror ''right'')"
    by blast
  show ?thesis
    by (intro conjI) (rule two_sided_left_squat two_sided_right_squat two_sided_left_sitting
        two_sided_right_sitting s1 s2 s3 s4 r1 r2 r3 r4 h1 h2 h3 h4 d e1 e2 e3 e4 m1 m2 e5 e6)+
qed

text \<open>
  Claim C10. With a facing other than the string \<open>left\<close>, whether \<open>right\<close> or a value
  outside the enumeration, the points of both evaluators are those of the right-side
  joints, and the result is that of the rules applied to them: the selection and the
  sitting result are those of the facing \<open>right\<close>, the squat result has the angles and
  the back and depth warnings of the one for \<open>right\<close>, and no other landmark is
  consulted. On a full frame of 33 landmarks both evaluators return a result: no error
  is raised on account of the facing.
\<close>

theorem facing_not_validated:
  assumes "facing \<noteq> ''left''"
  shows "(has_landmarks lms [(RIGHT_HIP, h), (RIGHT_KNEE, k), (RIGHT_ANKLE, a),
        (RIGHT_FOOT_INDEX, t), (RIGHT_SHOULDER, s)]
        \<longrightarrow> squat_landmarks lms facing = Inr (xy h, xy k, xy a, xy t, xy s)
          \<and> analyze_squat_posture lms facing
              = Inr (squat_rules facing (xy h) (xy k) (xy a) (xy t) (xy s)))
    \<and> (has_landmarks lms [(RIGHT_EAR, e), (RIGHT_SHOULDER, s), (RIGHT_HIP, h), (RIGHT_KNEE, k)]
        \<longrightarrow> sitting_landmarks lms facing = Inr (xy e, xy s, xy h, xy k)
          \<and> analyze_sitting_posture lms facing
              = Inr (sitting_rules (xy e) (xy s) (xy h) (xy k)))
    \<and> squat_landmarks lms facing = squat_landmarks lms ''right''
    \<and> sitting_landmarks lms facing = sitting_landmarks lms ''right''
    \<and> analyze_sitting_posture lms facing = analyze_sitting_posture lms ''right''
    \<and> map_sum id direction_free (analyze_squat_posture lms facing)
        = map_sum id direction_free (analyze_squat_posture lms ''right'')
    \<and> (agree_on [RIGHT_HIP, RIGHT_KNEE, RIGHT_ANKLE, RIGHT_FOOT_INDEX, RIGHT_SHOULDER] lms lms'
        \<longrightarrow> analyze_squat_posture lms facing = analyze_squat_posture lms' facing)
    \<and> (agree_on [RIGHT_EAR, RIGHT_SHOULDER, RIGHT_HIP, RIGHT_KNEE] lms lms'
        \<longrightarrow> analyze_sitting_posture lms facing = analyze_sitting_posture lms' facing)
    \<and> (33 \<le> length lms
        \<longrightarrow> (\<exists>r. analyze_squat_posture lms facing = Inr r)
          \<and> (\<exists>r. analyze_sitting_posture lms facing = Inr r))"
proof (intro conjI impI)
  assume h: "has_landmarks lms [(RIGHT_HIP, h), (RIGHT_KNEE, k), (RIGHT_ANKLE, a),
        (RIGHT_FOOT_INDEX, t), (RIGHT_SHOULDER, s)]"
  show sel: "squat_landmarks lms facing = Inr (xy h, xy k, xy a, xy t, xy s)"
    by (rule squat_landmarks_right_present [OF h assms])
  show "analyze_squat_posture lms facing
      = Inr (squat_rules facing (xy h) (xy k) (xy a) (xy t) (xy s))"
    by (rule analyze_squat_posture_selected [OF sel])
next
  assume h: "has_landmarks lms [(RIGHT_EAR, e), (RIGHT_SHOULDER, s), (RIGHT_HIP, h),
        (RIGHT_KNEE, k)]"
  show sel: "sitting_landmarks lms facing = Inr (xy e, xy s, xy h, xy k)"
    by (rule sitting_landmarks_right_present [OF h assms])
  show "analyze_sitting_posture lms facing
      = Inr (sitting_rules (xy e) (xy s) (xy h) (xy k))"
    by (rule analyze_sitting_posture_selected [OF sel])
next
  show sq: "squat_landmarks lms facing = squat_landmarks lms ''right''"
    using assms by (simp add: squat_landmarks_def)
  show si: "sitting_landmarks lms facing = sitting_landmarks lms ''right''"
    using assms by (simp add: sitting_landmarks_def)
  show "analyze_sitting_posture lms facing = analyze_sitting_posture lms ''right''"
    by (simp add: analyze_sitting_posture_def si)
  show "map_sum id direction_free (analyze_squat_posture lms facing)
        = map_sum id direction_free (analyze_squat_posture lms ''right'')"
    by (simp add: analyze_squat_posture_direction_free sq)
next
  assume "agree_on [RIGHT_HIP, RIGHT_KNEE, RIGHT_ANKLE, RIGHT_FOOT_INDEX, RIGHT_SHOULDER] lms lms'"
  then show "analyze_squat_posture lms facing = analyze_squat_posture lms' facing"
    using assms by (simp add: analyze_squat_posture_def squat_landmarks_right_cong)
next
  assume "agree_on [RIGHT_EAR, RIGHT_SHOULDER, RIGHT_HIP, RIGHT_KNEE] lms lms'"
  then show "analyze_sitting_posture lms facing = analyze_sitting_posture lms' facing"
    using assms by (simp add: analyze_sitting_posture_def sitting_landmarks_right_cong)
next
  assume len: "33 \<le> length lms"
  from squat_landmarks_full_frame [OF len, of facing]
  show "\<exists>r. analyze_squat_posture lms facing = Inr r"
    by (auto simp add: analyze_squat_posture_def and_then_simps)
next
  assume len: "33 \<le> length lms"
  from sitting_landmarks_full_frame [OF len, of facing]
  show "\<exists>r. analyze_sitting_posture lms facing = Inr r"
    by (auto simp add: analyze_sitting_posture_def and_then_simps)
qed

theorem facing_not_validated_witness:
  "''up'' \<noteq> ''left''
   \<and> has_landmarks two_sided_frame
     [(RIGHT_HIP, \<lparr>lm_x = 1/2, lm_y = 1/2\<rparr>), (RIGHT_KNEE, \<lparr>lm_x = 7/10, lm_y = 1/2\<rparr>),
      (RIGHT_ANKLE, \<lparr>lm_x = 7/10, lm_y = 7/10\<rparr>),
      (RIGHT_FOOT_INDEX, \<lparr>lm_x = 4/5, lm_y = 7/10\<rparr>),
      (RIGHT_SHOULDER, \<lparr>lm_x = 7/10, lm_y = 3/10\<rparr>)]
   \<and> has_landmarks two_sided_frame
     [(RIGHT_EAR, \<lparr>lm_x = 33/40, lm_y = 1/5\<rparr>), (RIGHT_SHOULDER, \<lparr>lm_x = 7/10, lm_y = 3/10\<rparr>),
      (RIGHT_HIP, \<lparr>lm_x = 1/2, lm_y = 1/2\<rparr>), (RIGHT_KNEE, \<lparr>lm_x = 7/10, lm_y = 1/2\<rparr>)]
   \<and> 33 \<le> length two_sided_frame
   \<and> agree_on [RIGHT_HIP, RIGHT_KNEE, RIGHT_ANKLE, RIGHT_FOOT_INDEX, RIGHT_SHOULDER]
       two_sided_frame (place LEFT_HIP (3/10) (1/5) two_sided_frame)
   \<and> agree_on [RIGHT_EAR, RIGHT_SHOULDER, RIGHT_HIP, RIGHT_KNEE]
       two_sided_frame (place LEFT_HIP (3/10) (1/5) two_sided_frame)
   \<and> landmark_at two_sided_frame LEFT_HIP
       \<noteq> landmark_at (place LEFT_HIP (3/10) (1/5) two_sided_frame) LEFT_HIP
   \<and> squat_landmarks two_sided_frame ''up''
       = Inr ((1/2, 1/2), (7/10, 1/2), (7/10, 7/10), (4/5, 7/10), (7/10, 3/10))
   \<and> sitting_landmarks two_sided_frame ''up''
       = Inr ((33/40, 1/5), (7/10, 3/10), (1/2, 1/2), (7/10, 1/2))
   \<and> (\<exists>r. analyze_squat_posture two_sided_frame ''up'' = Inr r \<and> warnings r = [])
   \<and> (\<exists>r. analyze_sitting_posture two_sided_frame ''up'' = Inr r
          \<and> warnings r = [HEAD_POSTURE, SITTING_BACK])
   \<and> squat_landmarks two_sided_frame ''up'' = squat_landmarks two_sided_frame ''right''
   \<and> sitting_landmarks two_sided_frame ''up'' = sitting_landmarks two_sided_frame ''right''
   \<and> analyze_sitting_posture two_sided_frame ''up''
       = analyze_sitting_posture two_sided_frame ''right''
   \<and> analyze_squat_posture two_sided_frame ''up''
       = analyze_squat_posture (place LEFT_HIP (3/10) (1/5) two_sided_frame) ''up''
   \<and> analyze_sitting_posture two_sided_frame ''up''
       = analyze_sitting_posture (place LEFT_HIP (3/10) (1/5) two_sided_frame) ''up''"
proof -
  let ?A = "two_sided_frame" and ?B = "place LEFT_HIP (3/10) (1/5) two_sided_frame"
  have f: "''up'' \<noteq> ''left''" by simp
  note th = facing_not_validated [OF f, where lms = ?A and lms' = ?B
      and h = "\<lparr>lm_x = 1/2, lm_y = 1/2\<rparr>" and k = "\<lparr>lm_x = 7/10, lm_y = 1/2\<rparr>"
      and a = "\<lparr>lm_x = 7/10, lm_y = 7/10\<rparr>" and t = "\<lparr>lm_x = 4/5, lm_y = 7/10\<rparr>"
      and s = "\<lparr>lm_x = 7/10, lm_y = 3/10\<rparr>" and e = "\<lparr>lm_x = 33/40, lm_y = 1/5\<rparr>"]
  have len: "33 \<le> length ?A"
    by (simp add: frame_defs)
  have h1: "agree_on [RIGHT_HIP, RIGHT_KNEE, RIGHT_ANKLE, RIGHT_FOOT_INDEX, RIGHT_SHOULDER] ?A ?B"
    by (simp add: agree_on_def frame_defs)
  have h2: "agree_on [RIGHT_EAR, RIGHT_SHOULDER, RIGHT_HIP, RIGHT_KNEE] ?A ?B"
    by (simp add: agree_on_def frame_defs)
  have d: "landmark_at ?A LEFT_HIP \<noteq> landmark_at ?B LEFT_HIP"
    by (simp add: frame_defs)
  from th two_sided_right_squat
  have s1: "squat_landmarks ?A ''up''
       = Inr ((1/2, 1/2), (7/10, 1/2), (7/10, 7/10), (4/5, 7/10), (7/10, 3/10))"
    and a1: "analyze_squat_posture ?A ''up'' = Inr (squat_rules ''up''
        (1/2, 1/2) (7/10, 1/2) (7/10, 7/10) (4/5, 7/10) (7/10, 3/10))"
    by (simp_all add: xy_def)
  from th two_sided_right_sitting
  have s2: "sitting_landmarks ?A ''up''
       = Inr ((33/40, 1/5), (7/10, 3/10), (1/2, 1/2), (7/10, 1/2))"
    and a2: "analyze_sitting_posture ?A ''up''
       = Inr (sitting_rules (33/40, 1/5) (7/10, 3/10) (1/2, 1/2) (7/10, 1/2))"
    by (simp_all add: xy_def)
  have r1: "\<exists>r. analyze_squat_posture ?A ''up'' = Inr r \<and> warnings r = []"
    using a1 good_squat_warnings [OF f] by blast
  have r2: "\<exists>r. analyze_sitting_posture ?A ''up'' = Inr r
          \<and> warnings r = [HEAD_POSTURE, SITTING_BACK]"
    using a2 leaning_sitting_warnings by blast
  from th have sq: "squat_landmarks ?A ''up'' = squat_landmarks ?A ''right''"
    by blast
  from th have si: "sitting_landmarks ?A ''up'' = sitting_landmarks ?A ''right''"
    by blast
  from th have an: "analyze_sitting_posture ?A ''up'' = analyze_sitting_posture ?A ''right''"
    by blast
  from th h1 have c1: "analyze_squat_posture ?A ''up'' = analyze_squat_posture ?B ''up''"
    by blast
  from th h2 have c2: "analyze_sitting_posture ?A ''up'' = analyze_sitting_posture ?B ''up''"
    by blast
  show ?thesis
    by (intro conjI) (rule f two_sided_right_squat two_sided_right_sitting len h1 h2 d
        s1 s2 r1 r2 sq si an c1 c2)+
qed

end
